theory Spec2Isabelle
  imports Complex_Main
begin

section \<open>CyLPModel: an algebraic modelling layer for linear programs\<close>

text \<open>
  A shallow embedding of \<^verbatim>\<open>py/modeling/CyLPModel.py\<close>.  Python objects with identity
  (variables, expression nodes, numpy arrays) live in an explicit store; every
  \<^verbatim>\<open>raise\<close> and every run-time failure of the interpreter is a value of type \<open>error\<close>.
\<close>

subsection \<open>IndexFactory\<close>

text \<open>
  \<^verbatim>\<open>range(a, b)\<close> of Python 2 is the list \<open>a, a + 1, ..., b - 1\<close> (empty when \<open>b \<le> a\<close>);
  \<^verbatim>\<open>+=\<close> on such a list appends.  The two dictionaries are maps from names to index lists.
\<close>

definition py_range :: "int \<Rightarrow> int \<Rightarrow> int list" where
  "py_range a b = [a..b - 1]"

record IndexFactory =
  varIndex :: "string \<rightharpoonup> int list"
  constIndex :: "string \<rightharpoonup> int list"
  currentVarIndex :: int
  currentConstIndex :: int

definition IndexFactory_init :: IndexFactory where
  "IndexFactory_init =
     \<lparr>varIndex = Map.empty, constIndex = Map.empty, currentVarIndex = 0, currentConstIndex = 0\<rparr>"

definition addVar :: "string \<Rightarrow> int \<Rightarrow> IndexFactory \<Rightarrow> IndexFactory" where
  "addVar varName numberOfVars f =
     (if numberOfVars = 0 then f
      else
        (let rg = py_range (currentVarIndex f) (currentVarIndex f + numberOfVars);
             f1 = (case varIndex f varName of
                     Some old \<Rightarrow> f\<lparr>varIndex := (varIndex f)(varName \<mapsto> old @ rg)\<rparr>
                   | None \<Rightarrow> f\<lparr>varIndex := (varIndex f)(varName \<mapsto> rg)\<rparr>)
         in f1\<lparr>currentVarIndex := currentVarIndex f + numberOfVars\<rparr>))"

definition hasVar :: "IndexFactory \<Rightarrow> string \<Rightarrow> bool" where
  "hasVar f varName = (varName \<in> dom (varIndex f))"

definition hasConst :: "IndexFactory \<Rightarrow> string \<Rightarrow> bool" where
  "hasConst f constName = (constName \<in> dom (constIndex f))"

definition addConst :: "string \<Rightarrow> int \<Rightarrow> IndexFactory \<Rightarrow> IndexFactory" where
  "addConst constName numberOfConsts f =
     (if numberOfConsts = 0 then f
      else
        (let rg = py_range (currentConstIndex f) (currentConstIndex f + numberOfConsts);
             f1 = (case constIndex f constName of
                     Some old \<Rightarrow> f\<lparr>constIndex := (constIndex f)(constName \<mapsto> old @ rg)\<rparr>
                   | None \<Rightarrow> f\<lparr>constIndex := (constIndex f)(constName \<mapsto> rg)\<rparr>)
         in f1\<lparr>currentConstIndex := currentConstIndex f + numberOfConsts\<rparr>))"

text \<open>A sequence of calls, each a name with its count, run from left to right.\<close>

fun addVars :: "(string \<times> int) list \<Rightarrow> IndexFactory \<Rightarrow> IndexFactory" where
  "addVars [] f = f"
| "addVars ((n, k) # cs) f = addVars cs (addVar n k f)"

fun addConsts :: "(string \<times> int) list \<Rightarrow> IndexFactory \<Rightarrow> IndexFactory" where
  "addConsts [] f = f"
| "addConsts ((n, k) # cs) f = addConsts cs (addConst n k f)"

text \<open>All indices assigned so far in one namespace, whatever the name.\<close>

definition all_indices :: "(string \<rightharpoonup> int list) \<Rightarrow> int set" where
  "all_indices idx = {i. \<exists>n xs. idx n = Some xs \<and> i \<in> set xs}"

text \<open>
  The invariant of one namespace: the cursor is not negative, every index list is free of
  repetitions, the lists of two names share no index, and together the lists hold exactly
  the indices below the cursor.
\<close>

definition ranges_ok :: "(string \<rightharpoonup> int list) \<Rightarrow> int \<Rightarrow> bool" where
  "ranges_ok idx cur =
     (0 \<le> cur \<and>
      (\<forall>n xs. idx n = Some xs \<longrightarrow> distinct xs) \<and>
      (\<forall>n m xs ys. idx n = Some xs \<and> idx m = Some ys \<and> n \<noteq> m \<longrightarrow> set xs \<inter> set ys = {}) \<and>
      all_indices idx = {0..<cur})"

text \<open>What the invariant gives for one namespace, and what one more call on a known name does.\<close>

definition namespace_laws :: "(string \<rightharpoonup> int list) \<Rightarrow> int \<Rightarrow> bool" where
  "namespace_laws idx cnt =
     ((\<forall>n xs. idx n = Some xs \<longrightarrow> distinct xs) \<and>
      (\<forall>n m xs ys. idx n = Some xs \<and> idx m = Some ys \<and> n \<noteq> m \<longrightarrow> set xs \<inter> set ys = {}) \<and>
      all_indices idx = {0..<cnt} \<and>
      card (all_indices idx) = nat cnt)"

subsection \<open>Errors, values and the store\<close>

text \<open>
  The module raises plain \<^verbatim>\<open>Exception\<close>s that differ in their message only; each message is
  a constructor here.  The other constructors are the interpreter's and numpy's own
  exceptions, which the code can run into.
\<close>

datatype error =
    ComparisonError   \<comment> \<open>\<^verbatim>\<open>'At least one side of a comparison sign should be constant.'\<close>\<close>
  | DimensionError    \<comment> \<open>\<^verbatim>\<open>"Coefficient: ... has %d columns expected %d"\<close>\<close>
  | RowCountError     \<comment> \<open>\<^verbatim>\<open>"Coefficient: ... has %d rows expected %d"\<close>\<close>
  | ScalarRowError    \<comment> \<open>\<^verbatim>\<open>"Expected 1-dimensional coefficient"\<close>\<close>
  | IndexError
  | KeyError
  | TypeError
  | AttributeError
  | ValueError
  | OverflowError
  | Unrepresentable   \<comment> \<open>no exception of Python: a value the model has no term for (see \<open>as_rhs\<close>)\<close>

text \<open>Sequencing of two fallible steps: the first error ends the run, as a raise does.\<close>

definition then_do :: "error + 'a \<Rightarrow> ('a \<Rightarrow> error + 'b) \<Rightarrow> error + 'b" where
  "then_do m f = (case m of Inl e \<Rightarrow> Inl e | Inr x \<Rightarrow> f x)"

text \<open>
  A numpy array is one-dimensional (\<open>Vec\<close>, as a \<^verbatim>\<open>CyLPArray\<close> built from a list) or
  two-dimensional (\<open>Mat\<close>, as a \<^verbatim>\<open>np.matrix\<close>), the latter with its column count, which a
  matrix with no row still has.  Entries are real numbers.  Where the code copies entries,
  multiplies them by 1 and by -1 or adds them to 0, floating point does the same exactly;
  where \<^verbatim>\<open>generateVarMatrix\<close> adds the coefficients of two overlapping slices of one block, the
  model adds them exactly and floating point rounds.
\<close>

datatype ndarray = Vec "real list" | Mat nat "real list list"

type_synonym ref = nat

text \<open>
  What an operand of an expression can be: a Python number, a string (the default
  \<^verbatim>\<open>left=''\<close> of an expression node, and the operator tokens of the postfix form),
  \<^verbatim>\<open>None\<close>, a numpy array, a \<^verbatim>\<open>CyLPVar\<close>, or a \<^verbatim>\<open>CyLPExpr\<close> node.  Arrays and variables are
  references into the store, since the code mutates them in place and shares them.  A node
  carries its identity and its three fields \<^verbatim>\<open>opr\<close>, \<^verbatim>\<open>left\<close>, \<^verbatim>\<open>right\<close>, which are never
  assigned after construction; its mutable field \<^verbatim>\<open>expr\<close> is in the store under its identity.
\<close>

datatype val =
    Num real
  | Str string
  | NoneV
  | Arr ref
  | Var ref
  | Node ref string val val

record CyLPVar =
  name :: string
  dim :: nat
  parentDim :: nat
  parent :: "ref option"
  isInt :: bool
  expr :: val
  lower :: "real list"
  upper :: "real list"
  indices :: "int list option"
  fromInd :: "int option"
  toInd :: "int option"

record store =
  vars :: "ref \<Rightarrow> CyLPVar"
  exprs :: "ref \<Rightarrow> val"
  arrs :: "ref \<Rightarrow> ndarray"
  nxt :: ref

definition getCoinInfinity :: real where
  "getCoinInfinity = 179769313486 * 10 ^ 297"

definition isVar :: "val \<Rightarrow> bool" where
  "isVar v = (case v of Var _ \<Rightarrow> True | _ \<Rightarrow> False)"

text \<open>\<^verbatim>\<open>isinstance(v, CyLPExpr)\<close>: \<^verbatim>\<open>CyLPVar\<close> is a subclass of \<^verbatim>\<open>CyLPExpr\<close>.\<close>

definition isExpr :: "val \<Rightarrow> bool" where
  "isExpr v = (case v of Var _ \<Rightarrow> True | Node _ _ _ _ \<Rightarrow> True | _ \<Rightarrow> False)"

text \<open>\<^verbatim>\<open>v.__class__ == CyLPExpr\<close>: a node that is not a variable.\<close>

definition isNode :: "val \<Rightarrow> bool" where
  "isNode v = (case v of Node _ _ _ _ \<Rightarrow> True | _ \<Rightarrow> False)"

definition new_arr :: "ndarray \<Rightarrow> store \<Rightarrow> ref \<times> store" where
  "new_arr a h = (nxt h, h\<lparr>arrs := (arrs h)(nxt h := a), nxt := Suc (nxt h)\<rparr>)"

text \<open>\<^verbatim>\<open>CyLPExpr.__init__\<close>: a new node, whose \<^verbatim>\<open>expr\<close> is the node itself.\<close>

definition new_node :: "string \<Rightarrow> val \<Rightarrow> val \<Rightarrow> store \<Rightarrow> val \<times> store" where
  "new_node opr l r h =
     (Node (nxt h) opr l r,
      h\<lparr>exprs := (exprs h)(nxt h := Node (nxt h) opr l r), nxt := Suc (nxt h)\<rparr>)"

definition get_expr :: "store \<Rightarrow> val \<Rightarrow> val" where
  "get_expr h v = (case v of Var r \<Rightarrow> expr (vars h r) | Node i _ _ _ \<Rightarrow> exprs h i | _ \<Rightarrow> v)"

definition set_expr :: "val \<Rightarrow> val \<Rightarrow> store \<Rightarrow> store" where
  "set_expr v e h =
     (case v of
        Var r \<Rightarrow> h\<lparr>vars := (vars h)(r := (vars h r)\<lparr>expr := e\<rparr>)\<rparr>
      | Node i _ _ _ \<Rightarrow> h\<lparr>exprs := (exprs h)(i := e)\<rparr>
      | _ \<Rightarrow> h)"

subsection \<open>The operators of CyLPExpr that build the tree\<close>

text \<open>
  Python evaluates \<^verbatim>\<open>c <= e\<close> for a number \<^verbatim>\<open>c\<close> and an expression \<^verbatim>\<open>e\<close> as \<^verbatim>\<open>e.__ge__(c)\<close>,
  \<^verbatim>\<open>c * e\<close> as \<^verbatim>\<open>e.__rmul__(c)\<close>, and a chain \<^verbatim>\<open>a <= e <= b\<close> as \<^verbatim>\<open>e.__ge__(a)\<close> followed by
  \<^verbatim>\<open>e.__le__(b)\<close>, whose result is the value of the chain.
\<close>

definition CyLPExpr_le :: "val \<Rightarrow> val \<Rightarrow> store \<Rightarrow> val \<times> store" where
  "CyLPExpr_le self other h =
     (let (v, h1) = new_node ''<='' (get_expr h self) other h in (v, set_expr self v h1))"

definition CyLPExpr_ge :: "val \<Rightarrow> val \<Rightarrow> store \<Rightarrow> val \<times> store" where
  "CyLPExpr_ge self other h =
     (let (v, h1) = new_node ''>='' (get_expr h self) other h in (v, set_expr self v h1))"

definition CyLPExpr_rmul :: "val \<Rightarrow> val \<Rightarrow> store \<Rightarrow> val \<times> store" where
  "CyLPExpr_rmul self other h =
     (let (v, h1) = new_node ''*'' other self h in (v, set_expr self v h1))"

definition CyLPExpr_rsub :: "val \<Rightarrow> val \<Rightarrow> store \<Rightarrow> val \<times> store" where
  "CyLPExpr_rsub self other h =
     (let (v, h1) = new_node ''-'' other self h in (v, set_expr self v h1))"

definition CyLPExpr_radd :: "val \<Rightarrow> val \<Rightarrow> store \<Rightarrow> val \<times> store" where
  "CyLPExpr_radd self other h =
     (let (v, h1) = new_node ''+'' other self h in (v, set_expr self v h1))"

definition CyLPExpr_neg :: "val \<Rightarrow> store \<Rightarrow> val \<times> store" where
  "CyLPExpr_neg self h =
     (let (v, h1) = new_node ''u-'' (Str []) self h in (v, set_expr self v h1))"

definition CyLPVar_sum :: "val \<Rightarrow> store \<Rightarrow> val \<times> store" where
  "CyLPVar_sum self h =
     (let (v, h1) = new_node ''sum'' (Str []) self h in (v, set_expr self v h1))"

fun getPostfix :: "val \<Rightarrow> val list" where
  "getPostfix (Node i opr l r) =
     (if isExpr l then getPostfix l else [l]) @ (if isExpr r then getPostfix r else [r]) @ [Str opr]"
| "getPostfix v = [v]"

subsection \<open>CyLPVar\<close>

text \<open>
  \<^verbatim>\<open>CyLPVar.__init__\<close>.  \<^verbatim>\<open>np.ones(dim)\<close> raises for a negative \<^verbatim>\<open>dim\<close>, so a variable's
  dimensions are natural numbers; the callers below check the sign before they construct.
  With both \<^verbatim>\<open>fromInd\<close> and \<^verbatim>\<open>toInd\<close> given and non-zero the constructor sets \<^verbatim>\<open>indices\<close> and
  \<^verbatim>\<open>toInd\<close>, and writes \<^verbatim>\<open>fromInd\<close> to an attribute spelt \<^verbatim>\<open>formInd\<close>, so \<^verbatim>\<open>fromInd\<close> stays
  \<^verbatim>\<open>None\<close>.
\<close>

definition truthy_int :: "int option \<Rightarrow> bool" where
  "truthy_int x = (case x of None \<Rightarrow> False | Some i \<Rightarrow> i \<noteq> 0)"

definition CyLPVar_init :: "ref \<Rightarrow> string \<Rightarrow> nat \<Rightarrow> bool \<Rightarrow> int option \<Rightarrow> int option \<Rightarrow> CyLPVar" where
  "CyLPVar_init self nm d isI fromI toI =
     \<lparr>name = nm, dim = d, parentDim = d, parent = None, isInt = isI, expr = Var self,
      lower = replicate d (- getCoinInfinity), upper = replicate d getCoinInfinity,
      indices = (if truthy_int fromI \<and> truthy_int toI
                 then Some (py_range (the fromI) (the toI)) else None),
      fromInd = None,
      toInd = (if truthy_int fromI \<and> truthy_int toI then toI else None)\<rparr>"

definition new_var :: "string \<Rightarrow> nat \<Rightarrow> bool \<Rightarrow> store \<Rightarrow> ref \<times> store" where
  "new_var nm d isI h =
     (nxt h, h\<lparr>vars := (vars h)(nxt h := CyLPVar_init (nxt h) nm d isI None None),
               nxt := Suc (nxt h)\<rparr>)"

text \<open>
  \<^verbatim>\<open>np.array([key], np.int32)\<close>: a key outside the 32-bit range raises \<^verbatim>\<open>OverflowError\<close>, as
  numpy documents it (releases before that rule wrapped the key around instead).
\<close>

definition np_int32 :: "int \<Rightarrow> error + int" where
  "np_int32 i = (if - (2 ^ 31) \<le> i \<and> i < 2 ^ 31 then Inr i else Inl OverflowError)"

text \<open>
  \<^verbatim>\<open>CyLPVar.__getitem__\<close> with an integer key or a slice \<^verbatim>\<open>start:stop\<close>.  The new variable is
  built by \<^verbatim>\<open>CyLPVar(self.name, toInd - fromInd)\<close>, which raises \<^verbatim>\<open>ValueError\<close> in \<^verbatim>\<open>np.ones\<close>
  when the difference is negative.
\<close>

datatype key = IntKey int | SliceKey int int

definition CyLPVar_getitem :: "ref \<Rightarrow> key \<Rightarrow> store \<Rightarrow> error + (ref \<times> store)" where
  "CyLPVar_getitem self k h =
     (case k of
        IntKey i \<Rightarrow>
          (let (r, h1) = new_var (name (vars h self)) 1 False h
           in then_do (np_int32 i) (\<lambda>i32.
                (let newObj = (vars h1 r)\<lparr>indices := Some [i32], parentDim := dim (vars h self),
                                           parent := Some self, dim := 1\<rparr>
                 in Inr (r, h1\<lparr>vars := (vars h1)(r := newObj)\<rparr>))))
      | SliceKey start stop \<Rightarrow>
          (let newObj_fromInd = start;
               newObj_toInd = (if stop > int (dim (vars h self)) then int (dim (vars h self)) else stop)
           in if newObj_toInd - newObj_fromInd < 0 then Inl ValueError
              else
                (let (r, h1) = new_var (name (vars h self)) (nat (newObj_toInd - newObj_fromInd)) False h;
                     newObj = (vars h1 r)\<lparr>parentDim := dim (vars h self), parent := Some self,
                                fromInd := Some newObj_fromInd, toInd := Some newObj_toInd,
                                indices := Some (py_range newObj_fromInd newObj_toInd),
                                dim := length (py_range newObj_fromInd newObj_toInd)\<rparr>
                 in Inr (r, h1\<lparr>vars := (vars h1)(r := newObj)\<rparr>))))"

text \<open>\<^verbatim>\<open>'%d' % i\<close> for an integer.\<close>

function show_nat :: "nat \<Rightarrow> string" where
  "show_nat n = (if n < 10 then [char_of (48 + n)] else show_nat (n div 10) @ [char_of (48 + n mod 10)])"
  by pat_completeness auto
termination
  by (relation "measure id") auto

definition show_int :: "int \<Rightarrow> string" where
  "show_int i = (if i < 0 then CHR ''-'' # show_nat (nat (- i)) else show_nat (nat i))"

text \<open>\<^verbatim>\<open>CyLPVar.__repr__\<close>, which \<^verbatim>\<open>str\<close> uses too.\<close>

definition CyLPVar_repr :: "CyLPVar \<Rightarrow> string" where
  "CyLPVar_repr v =
     (if truthy_int (fromInd v) \<and> truthy_int (toInd v)
      then name v @ ''['' @ show_int (the (fromInd v)) @ '':'' @ show_int (the (toInd v)) @ '']''
      else if indices v \<noteq> None \<and> length (the (indices v)) = 1
      then name v @ ''['' @ show_int (hd (the (indices v))) @ '']''
      else name v)"

text \<open>
  \<^verbatim>\<open>CyLPExpr.__eq__\<close>: between two variables it is a comparison of their printed forms and
  returns a Python boolean (a number); otherwise it builds a node like the other comparisons.
\<close>

definition CyLPExpr_eq :: "val \<Rightarrow> val \<Rightarrow> store \<Rightarrow> val \<times> store" where
  "CyLPExpr_eq self other h =
     (case (self, other) of
        (Var a, Var b) \<Rightarrow>
          (Num (if CyLPVar_repr (vars h a) = CyLPVar_repr (vars h b) then 1 else 0), h)
      | _ \<Rightarrow> (let (v, h1) = new_node ''=='' (get_expr h self) other h in (v, set_expr self v h1)))"

text \<open>
  \<^verbatim>\<open>x in xs\<close> for a variable \<^verbatim>\<open>x\<close> and a list of variables: some element is the same object
  or equal by \<^verbatim>\<open>__eq__\<close>, that is, prints the same.
\<close>

definition var_in :: "store \<Rightarrow> ref \<Rightarrow> ref list \<Rightarrow> bool" where
  "var_in h x xs = (\<exists>y \<in> set xs. y = x \<or> CyLPVar_repr (vars h y) = CyLPVar_repr (vars h x))"

subsection \<open>The numpy operations the module relies on\<close>

text \<open>
  numpy is a library outside the repository.  Its operations follow numpy's documented
  rules: an index is counted from the end when negative, \<^verbatim>\<open>a[None] = v\<close> broadcasts \<^verbatim>\<open>v\<close>
  over the whole of \<^verbatim>\<open>a\<close>, and \<^verbatim>\<open>a[idx] = v\<close> for a one-dimensional \<^verbatim>\<open>a\<close> and an index array
  of \<open>k\<close> positions broadcasts \<^verbatim>\<open>v\<close> to \<open>k\<close> entries and assigns them in order; a value that
  cannot be broadcast, such as an array of another length than 1 or \<open>k\<close>, raises
  \<^verbatim>\<open>ValueError\<close>.
\<close>

datatype rhs = Scalar real | Array ndarray

definition np_index :: "nat \<Rightarrow> int \<Rightarrow> nat option" where
  "np_index n i =
     (if 0 \<le> i \<and> i < int n then Some (nat i)
      else if - int n \<le> i \<and> i < 0 then Some (nat (i + int n))
      else None)"

fun np_indices :: "nat \<Rightarrow> int list \<Rightarrow> error + nat list" where
  "np_indices n [] = Inr []"
| "np_indices n (i # is) =
     (case np_index n i of
        None \<Rightarrow> Inl IndexError
      | Some j \<Rightarrow> (case np_indices n is of Inl e \<Rightarrow> Inl e | Inr js \<Rightarrow> Inr (j # js)))"

text \<open>The entries of \<open>vs\<close> go to the positions \<open>js\<close> in order; a later position overwrites.\<close>

fun put_at :: "real list \<Rightarrow> nat list \<Rightarrow> real list \<Rightarrow> real list" where
  "put_at a (j # js) (v # vs) = put_at (a[j := v]) js vs"
| "put_at a js vs = a"

text \<open>
  \<^verbatim>\<open>v\<close> broadcast to \<open>n\<close> entries in a row: a scalar, an array of \<open>n\<close> entries or of one, or
  a matrix of one row of that kind; everything else raises \<^verbatim>\<open>ValueError\<close>.
\<close>

definition np_broadcast_row :: "nat \<Rightarrow> rhs \<Rightarrow> error + real list" where
  "np_broadcast_row n v =
     (case v of
        Scalar x \<Rightarrow> Inr (replicate n x)
      | Array (Vec ys) \<Rightarrow>
          (if length ys = n then Inr ys
           else if length ys = 1 then Inr (replicate n (hd ys))
           else Inl ValueError)
      | Array (Mat nc rows) \<Rightarrow>
          (if length rows = 1 \<and> nc = n then Inr (hd rows)
           else if length rows = 1 \<and> nc = 1 then Inr (replicate n (hd (hd rows)))
           else Inl ValueError))"

definition np_setitem :: "real list \<Rightarrow> int list option \<Rightarrow> rhs \<Rightarrow> error + real list" where
  "np_setitem a idx v =
     (case idx of
        None \<Rightarrow> np_broadcast_row (length a) v
      | Some is \<Rightarrow>
          then_do (np_indices (length a) is) (\<lambda>js.
          then_do (np_broadcast_row (length js) v) (\<lambda>vs. Inr (put_at a js vs))))"

text \<open>\<^verbatim>\<open>a *= -1\<close>, in place.\<close>

fun arr_neg :: "ndarray \<Rightarrow> ndarray" where
  "arr_neg (Vec xs) = Vec (map uminus xs)"
| "arr_neg (Mat n rows) = Mat n (map (map uminus) rows)"

text \<open>\<^verbatim>\<open>a.shape[-1]\<close> and \<^verbatim>\<open>len(a)\<close>.\<close>

fun last_axis :: "ndarray \<Rightarrow> nat" where
  "last_axis (Vec xs) = length xs"
| "last_axis (Mat n rows) = n"

fun np_len :: "ndarray \<Rightarrow> nat" where
  "np_len (Vec xs) = length xs"
| "np_len (Mat n rows) = length rows"

subsection \<open>CyLPConstraint and perform\<close>

text \<open>
  The dictionary \<^verbatim>\<open>varCoefs\<close> is keyed by the variable objects themselves (\<^verbatim>\<open>__hash__\<close> is
  \<^verbatim>\<open>id\<close>), so its keys are references; its values are references to arrays, since a
  coefficient can be the very array the caller wrote into the expression.  It is kept as an
  association list in insertion order.  The fields \<^verbatim>\<open>lower\<close>, \<^verbatim>\<open>upper\<close> and \<^verbatim>\<open>variables\<close> of a
  constraint are \<open>clower\<close>, \<open>cupper\<close> and \<open>cvariables\<close> here, apart from a variable's.
\<close>

record CyLPConstraint =
  varNames :: "string list"
  parentVarDims :: "string \<rightharpoonup> nat"
  varCoefs :: "(ref \<times> ref) list"
  clower :: val
  cupper :: val
  nRows :: "nat option"
  isRange :: bool
  cvariables :: "ref list"

definition CyLPConstraint_init :: CyLPConstraint where
  "CyLPConstraint_init =
     \<lparr>varNames = [], parentVarDims = Map.empty, varCoefs = [], clower = NoneV, cupper = NoneV,
      nRows = None, isRange = True, cvariables = []\<rparr>"

definition dict_set :: "(ref \<times> ref) list \<Rightarrow> ref \<Rightarrow> ref \<Rightarrow> (ref \<times> ref) list" where
  "dict_set d k v =
     (if k \<in> fst ` set d then map (\<lambda>(k', v'). if k' = k then (k', v) else (k', v')) d
      else d @ [(k, v)])"

text \<open>\<^verbatim>\<open>if name not in self.varNames: self.varNames.append(name); self.parentVarDims[name] = parentDim\<close>\<close>

definition add_name :: "CyLPVar \<Rightarrow> CyLPConstraint \<Rightarrow> CyLPConstraint" where
  "add_name v c =
     (if name v \<in> set (varNames c) then c
      else c\<lparr>varNames := varNames c @ [name v],
             parentVarDims := (parentVarDims c)(name v \<mapsto> parentDim v)\<rparr>)"

text \<open>\<^verbatim>\<open>self.nRows and self.nRows != n\<close>: a row count that is \<^verbatim>\<open>None\<close> or 0 is not a conflict.\<close>

definition row_conflict :: "nat option \<Rightarrow> nat \<Rightarrow> bool" where
  "row_conflict r n = (case r of None \<Rightarrow> False | Some k \<Rightarrow> k \<noteq> 0 \<and> k \<noteq> n)"

text \<open>
  A new array of \<^verbatim>\<open>dim\<close> entries \<open>s\<close> becomes the coefficient of a variable, the row count
  becomes 1 and the variable's name is recorded.
\<close>

definition set_ones :: "ref \<Rightarrow> real \<Rightarrow> CyLPConstraint \<Rightarrow> store \<Rightarrow> CyLPConstraint \<times> store" where
  "set_ones v s c h =
     (let (a, h1) = new_arr (Vec (replicate (dim (vars h v)) s)) h
      in (add_name (vars h v) (c\<lparr>varCoefs := dict_set (varCoefs c) v a, nRows := Some 1\<rparr>), h1))"

text \<open>\<^verbatim>\<open>self.varCoefs[k] *= -1\<close>: the array under the key is negated where it is.\<close>

definition negate_coef :: "ref \<Rightarrow> CyLPConstraint \<Rightarrow> store \<Rightarrow> error + (CyLPConstraint \<times> store)" where
  "negate_coef k c h =
     (case map_of (varCoefs c) k of
        None \<Rightarrow> Inl KeyError
      | Some a \<Rightarrow> Inr (c, h\<lparr>arrs := (arrs h)(a := arr_neg (arrs h a))\<rparr>))"

text \<open>Lines 220 to 243: the operator \<^verbatim>\<open>*\<close> with a variable on the right.\<close>

definition perform_mul :: "val \<Rightarrow> ref \<Rightarrow> CyLPConstraint \<Rightarrow> store \<Rightarrow> error + (CyLPConstraint \<times> store)" where
  "perform_mul left r c h =
     then_do
       (case left of
          Num x \<Rightarrow>
            (if row_conflict (nRows c) 1 then Inl ScalarRowError
             else (let (a, h1) = new_arr (Vec (replicate (dim (vars h r)) x)) h
                   in Inr (c\<lparr>nRows := Some 1\<rparr>, a, h1)))
        | Arr a \<Rightarrow>
            (if dim (vars h r) \<noteq> last_axis (arrs h a)
             then (case arrs h a of Vec _ \<Rightarrow> Inl IndexError | Mat _ _ \<Rightarrow> Inl DimensionError)
             else (let nr = (case arrs h a of Vec _ \<Rightarrow> 1 | Mat _ rows \<Rightarrow> length rows)
                   in if row_conflict (nRows c) nr then Inl RowCountError
                      else Inr (c\<lparr>nRows := Some nr\<rparr>, a, h)))
        | _ \<Rightarrow> Inl AttributeError)
       (\<lambda>(c1, coef, h1). Inr (c1\<lparr>varCoefs := dict_set (varCoefs c1) r coef, isRange := False\<rparr>, h1))"

text \<open>Lines 245 to 268: the operators \<^verbatim>\<open>+\<close> and \<^verbatim>\<open>-\<close> with a variable on the right.\<close>

definition perform_addsub :: "string \<Rightarrow> val \<Rightarrow> ref \<Rightarrow> CyLPConstraint \<Rightarrow> store \<Rightarrow> error + (CyLPConstraint \<times> store)" where
  "perform_addsub opr left r c h =
     (let (c1, h1) = (case left of
                        Var l \<Rightarrow> set_ones l 1 (c\<lparr>isRange := False\<rparr>) h
                      | _ \<Rightarrow> (c\<lparr>isRange := False\<rparr>, h))
      in if var_in h1 r (map fst (varCoefs c1)) then negate_coef r c1 h1
         else Inr (set_ones r (if opr = ''-'' then - 1 else 1) c1 h1))"

text \<open>Lines 204 to 268: everything under \<^verbatim>\<open>if isinstance(right, CyLPVar)\<close>.\<close>

definition perform_right_var :: "string \<Rightarrow> val \<Rightarrow> ref \<Rightarrow> CyLPConstraint \<Rightarrow> store \<Rightarrow> error + (CyLPConstraint \<times> store)" where
  "perform_right_var opr left r c0 h =
     (let c = add_name (vars h r) c0
      in if opr = ''u-'' then
           (let (a, h1) = new_arr (Vec (replicate (dim (vars h r)) (- 1))) h
            in Inr (c\<lparr>varCoefs := dict_set (varCoefs c) r a, isRange := False,
                      nRows := Some (dim (vars h r))\<rparr>, h1))
         else if opr = ''sum'' then Inr (c, h)
         else then_do (if opr = ''*'' then perform_mul left r c h else Inr (c, h))
                (\<lambda>(c1, h1). if opr = ''+'' \<or> opr = ''-'' then perform_addsub opr left r c1 h1
                             else Inr (c1, h1)))"

text \<open>Lines 288 to 343: the comparisons.\<close>

definition is_cmp :: "string \<Rightarrow> bool" where
  "is_cmp opr = (opr = ''<='' \<or> opr = ''>='' \<or> opr = ''=='')"

text \<open>
  What numpy makes of the right-hand side of an assignment into a float array.  A string
  that is no number raises \<^verbatim>\<open>ValueError\<close>.  \<^verbatim>\<open>None\<close> raises nothing: numpy stores it as
  \<^verbatim>\<open>nan\<close>, which is no real number, so the model has no array for the outcome and stops
  with \<open>Unrepresentable\<close>.  The bound of a comparison is never a variable or a node.
\<close>

definition as_rhs :: "store \<Rightarrow> val \<Rightarrow> error + rhs" where
  "as_rhs h v =
     (case v of
        Num x \<Rightarrow> Inr (Scalar x)
      | Arr a \<Rightarrow> Inr (Array (arrs h a))
      | Str _ \<Rightarrow> Inl ValueError
      | NoneV \<Rightarrow> Inl Unrepresentable
      | _ \<Rightarrow> Inl TypeError)"

definition py_len :: "store \<Rightarrow> val \<Rightarrow> error + nat" where
  "py_len h v =
     (case v of
        Arr a \<Rightarrow> Inr (np_len (arrs h a))
      | Str s \<Rightarrow> Inr (length s)
      | Num _ \<Rightarrow> Inl TypeError
      | NoneV \<Rightarrow> Inl TypeError
      | _ \<Rightarrow> Inl AttributeError)"

text \<open>
  \<^verbatim>\<open>if var.parent: var.parent.lower[var.indices] = bound else: var.lower[var.indices] = bound\<close>,
  and the same for \<^verbatim>\<open>upper\<close>.
\<close>

definition bound_owner :: "store \<Rightarrow> ref \<Rightarrow> ref" where
  "bound_owner h v = (case parent (vars h v) of Some p \<Rightarrow> p | None \<Rightarrow> v)"

definition write_lower :: "ref \<Rightarrow> val \<Rightarrow> store \<Rightarrow> error + store" where
  "write_lower v bound h =
     then_do (as_rhs h bound) (\<lambda>b.
     then_do (np_setitem (lower (vars h (bound_owner h v))) (indices (vars h v)) b) (\<lambda>new.
       Inr (h\<lparr>vars := (vars h)(bound_owner h v := (vars h (bound_owner h v))\<lparr>lower := new\<rparr>)\<rparr>)))"

definition write_upper :: "ref \<Rightarrow> val \<Rightarrow> store \<Rightarrow> error + store" where
  "write_upper v bound h =
     then_do (as_rhs h bound) (\<lambda>b.
     then_do (np_setitem (upper (vars h (bound_owner h v))) (indices (vars h v)) b) (\<lambda>new.
       Inr (h\<lparr>vars := (vars h)(bound_owner h v := (vars h (bound_owner h v))\<lparr>upper := new\<rparr>)\<rparr>)))"

text \<open>
  \<^verbatim>\<open>self.lower = bound; if self.upper == None: self.upper = getCoinInfinity() * np.ones(len(bound))\<close>,
  and the mirror image for \<^verbatim>\<open>upper\<close>.
\<close>

definition set_lower :: "val \<Rightarrow> CyLPConstraint \<Rightarrow> store \<Rightarrow> error + (CyLPConstraint \<times> store)" where
  "set_lower bound c h =
     (if cupper c = NoneV then
        then_do (py_len h bound) (\<lambda>n.
          (let (a, h1) = new_arr (Vec (replicate n getCoinInfinity)) h
           in Inr (c\<lparr>clower := bound, cupper := Arr a\<rparr>, h1)))
      else Inr (c\<lparr>clower := bound\<rparr>, h))"

definition set_upper :: "val \<Rightarrow> CyLPConstraint \<Rightarrow> store \<Rightarrow> error + (CyLPConstraint \<times> store)" where
  "set_upper bound c h =
     (if clower c = NoneV then
        then_do (py_len h bound) (\<lambda>n.
          (let (a, h1) = new_arr (Vec (replicate n (- getCoinInfinity))) h
           in Inr (c\<lparr>cupper := bound, clower := Arr a\<rparr>, h1)))
      else Inr (c\<lparr>cupper := bound\<rparr>, h))"

definition sets_lower :: "string \<Rightarrow> val \<Rightarrow> val \<Rightarrow> bool" where
  "sets_lower opr left right =
     (((opr = ''>='' \<or> opr = ''=='') \<and> isExpr left) \<or> ((opr = ''<='' \<or> opr = ''=='') \<and> isExpr right))"

definition sets_upper :: "string \<Rightarrow> val \<Rightarrow> val \<Rightarrow> bool" where
  "sets_upper opr left right =
     (((opr = ''<='' \<or> opr = ''=='') \<and> isExpr left) \<or> ((opr = ''>='' \<or> opr = ''=='') \<and> isExpr right))"

definition compare_bound :: "string \<Rightarrow> val \<Rightarrow> val \<Rightarrow> val \<Rightarrow> CyLPConstraint \<Rightarrow> store \<Rightarrow> error + (CyLPConstraint \<times> store)" where
  "compare_bound opr left right bound0 c h =
     then_do
       (if isRange c then
          (case cvariables c of
             [] \<Rightarrow> Inl IndexError
           | v # _ \<Rightarrow> Inr (c\<lparr>nRows := Some (parentDim (vars h v))\<rparr>, Some (parentDim (vars h v))))
        else Inr (c, nRows c))
       (\<lambda>(c1, d).
     then_do
       (case right of
          Num x \<Rightarrow>
            (case d of
               None \<Rightarrow> Inl TypeError
             | Some n \<Rightarrow> (let (a, h1) = new_arr (Vec (replicate n x)) h in Inr (Arr a, h1)))
        | _ \<Rightarrow> Inr (bound0, h))
       (\<lambda>(bound, h1).
          if isRange c1 then
            then_do (if sets_lower opr left right then write_lower (hd (cvariables c1)) bound h1
                     else Inr h1) (\<lambda>h2.
            then_do (if sets_upper opr left right then write_upper (hd (cvariables c1)) bound h2
                     else Inr h2) (\<lambda>h3. Inr (c1, h3)))
          else
            then_do (if sets_lower opr left right then set_lower bound c1 h1 else Inr (c1, h1))
              (\<lambda>(c2, h2). if sets_upper opr left right then set_upper bound c2 h2 else Inr (c2, h2))))"

definition perform_compare :: "string \<Rightarrow> val \<Rightarrow> val \<Rightarrow> CyLPConstraint \<Rightarrow> store \<Rightarrow> error + (CyLPConstraint \<times> store)" where
  "perform_compare opr left right c h =
     (if isExpr left \<and> \<not> isExpr right then compare_bound opr left right right c h
      else if isExpr right \<and> \<not> isExpr left then compare_bound opr left right left c h
      else Inl ComparisonError)"

text \<open>
  Lines 280 to 286: \<^verbatim>\<open>self.varCoefs[right.right] *= -1\<close>.  A key that is not in the dictionary
  raises \<^verbatim>\<open>KeyError\<close>, an array as a key raises \<^verbatim>\<open>TypeError\<close> (it cannot be hashed).
\<close>

definition negate_key :: "val \<Rightarrow> CyLPConstraint \<Rightarrow> store \<Rightarrow> error + (CyLPConstraint \<times> store)" where
  "negate_key k c h =
     (case k of
        Var v \<Rightarrow> negate_coef v c h
      | Arr _ \<Rightarrow> Inl TypeError
      | _ \<Rightarrow> Inl KeyError)"

text \<open>\<^verbatim>\<open>CyLPConstraint.perform\<close>: its four blocks, in the order of the source.\<close>

definition perform :: "string \<Rightarrow> val \<Rightarrow> val \<Rightarrow> CyLPConstraint \<Rightarrow> store \<Rightarrow> error + (CyLPConstraint \<times> store)" where
  "perform opr left right c h =
     then_do (case right of Var r \<Rightarrow> perform_right_var opr left r c h | _ \<Rightarrow> Inr (c, h))
       (\<lambda>(c1, h1).
     then_do (case left of
                Var l \<Rightarrow> (if opr = ''-'' \<or> opr = ''+''
                          then Inr (set_ones l 1 (c1\<lparr>isRange := False\<rparr>) h1) else Inr (c1, h1))
              | _ \<Rightarrow> Inr (c1, h1))
       (\<lambda>(c2, h2).
     then_do (case right of
                Node _ _ _ rr \<Rightarrow> (if opr = ''-'' then negate_key rr (c2\<lparr>isRange := False\<rparr>) h2
                                  else Inr (c2, h2))
              | _ \<Rightarrow> Inr (c2, h2))
       (\<lambda>(c3, h3). if is_cmp opr then perform_compare opr left right c3 h3 else Inr (c3, h3))))"

subsection \<open>evaluate\<close>

definition operators :: "string list" where
  "operators = [''>='', ''<='', ''=='', ''+'', ''-'', ''*'', ''u-'', ''sum'']"

text \<open>\<^verbatim>\<open>operands.pop()\<close>: the last element, \<^verbatim>\<open>IndexError\<close> on an empty list.\<close>

definition pop :: "val list \<Rightarrow> error + (val \<times> val list)" where
  "pop xs = (if xs = [] then Inl IndexError else Inr (last xs, butlast xs))"

text \<open>
  The loop over the tokens.  A token is an operator when it is a string and one of
  \<^verbatim>\<open>CyLPExpr.operators\<close>; every other token is pushed, and a variable is also appended to
  \<^verbatim>\<open>cons.variables\<close> unless the list has an equal one.
\<close>

fun eval_tokens :: "val list \<Rightarrow> val list \<Rightarrow> CyLPConstraint \<Rightarrow> store \<Rightarrow> error + (val list \<times> CyLPConstraint \<times> store)" where
  "eval_tokens [] operands c h = Inr (operands, c, h)"
| "eval_tokens (Str opr # ts) operands c h =
     (if opr \<notin> set operators then eval_tokens ts (operands @ [Str opr]) c h
      else if opr = ''u-'' then
        (case pop operands of
           Inl e \<Rightarrow> Inl e
         | Inr (right, ops1) \<Rightarrow>
             (case perform opr NoneV right c h of
                Inl e \<Rightarrow> Inl e
              | Inr (c1, h1) \<Rightarrow>
                  (case new_node opr (Str []) right h1 of
                     (n, h2) \<Rightarrow> eval_tokens ts (ops1 @ [n]) c1 h2)))
      else
        (case pop operands of
           Inl e \<Rightarrow> Inl e
         | Inr (right, ops1) \<Rightarrow>
             (case pop ops1 of
                Inl e \<Rightarrow> Inl e
              | Inr (left, ops2) \<Rightarrow>
                  (case perform opr left right c h of
                     Inl e \<Rightarrow> Inl e
                   | Inr (c1, h1) \<Rightarrow>
                       (case new_node opr left right h1 of
                          (n, h2) \<Rightarrow> eval_tokens ts (ops2 @ [n]) c1 h2)))))"
| "eval_tokens (Var v # ts) operands c h =
     eval_tokens ts (operands @ [Var v])
       (if var_in h v (cvariables c) then c else c\<lparr>cvariables := cvariables c @ [v]\<rparr>) h"
| "eval_tokens (t # ts) operands c h = eval_tokens ts (operands @ [t]) c h"

text \<open>\<^verbatim>\<open>for var in cons.varCoefs.keys(): var.expr = var\<close>\<close>

fun reset_exprs :: "ref list \<Rightarrow> store \<Rightarrow> store" where
  "reset_exprs [] h = h"
| "reset_exprs (v # vs) h = reset_exprs vs (h\<lparr>vars := (vars h)(v := (vars h v)\<lparr>expr := Var v\<rparr>)\<rparr>)"

definition evaluate :: "val \<Rightarrow> store \<Rightarrow> error + (CyLPConstraint \<times> store)" where
  "evaluate self h =
     then_do (eval_tokens (getPostfix self) [] CyLPConstraint_init h) (\<lambda>(operands, c, h1).
       (let (c2, h2) =
              (case operands of
                 [Var v] \<Rightarrow>
                   (let (a, h') = new_arr (Vec (replicate (dim (vars h1 v)) 1)) h1
                    in (c\<lparr>varCoefs := dict_set (varCoefs c) v a\<rparr>, h'))
               | _ \<Rightarrow> (c, h1))
        in Inr (c2, reset_exprs (map fst (varCoefs c2)) h2)))"

subsection \<open>CyLPModel\<close>

text \<open>
  The attributes \<^verbatim>\<open>allVarNames\<close>, \<^verbatim>\<open>allParentVarDims\<close> and \<^verbatim>\<open>nRows\<close> of a model, which
  \<^verbatim>\<open>makeIndexFactory\<close> sets, are fields from the start here; the model's \<^verbatim>\<open>nRows\<close> is
  \<open>mRows\<close>, apart from a constraint's.
\<close>

record CyLPModel =
  variables :: "ref list"
  constraints :: "CyLPConstraint list"
  inds :: IndexFactory
  allVarNames :: "string list"
  allParentVarDims :: "string \<rightharpoonup> nat"
  mRows :: nat

definition CyLPModel_init :: CyLPModel where
  "CyLPModel_init =
     \<lparr>variables = [], constraints = [], inds = IndexFactory_init, allVarNames = [],
      allParentVarDims = Map.empty, mRows = 0\<rparr>"

definition addVariable :: "string \<Rightarrow> nat \<Rightarrow> bool \<Rightarrow> CyLPModel \<Rightarrow> store \<Rightarrow> ref \<times> CyLPModel \<times> store" where
  "addVariable nm d isI m h =
     (let (r, h1) = new_var nm d isI h in (r, m\<lparr>variables := variables m @ [r]\<rparr>, h1))"

text \<open>
  The inner loop of \<^verbatim>\<open>makeIndexFactory\<close> for one constraint:
  \<^verbatim>\<open>for var in self.variables: self.allVarNames += [vname for vname in c.varNames
  if vname not in self.allVarNames and vname == var.name]\<close>
\<close>

fun add_names :: "string list \<Rightarrow> string list \<Rightarrow> string list \<Rightarrow> string list" where
  "add_names [] cnames names = names"
| "add_names (vn # vns) cnames names =
     add_names vns cnames (names @ filter (\<lambda>vname. vname \<notin> set names \<and> vname = vn) cnames)"

fun index_loop :: "CyLPConstraint list \<Rightarrow> string list \<Rightarrow> string list \<times> (string \<rightharpoonup> nat) \<times> nat \<Rightarrow>
    error + (string list \<times> (string \<rightharpoonup> nat) \<times> nat)" where
  "index_loop [] vns st = Inr st"
| "index_loop (c # cs) vns (names, dims, n) =
     (case nRows c of
        None \<Rightarrow> Inl TypeError
      | Some k \<Rightarrow> index_loop cs vns (add_names vns (varNames c) names, dims ++ parentVarDims c, n + k))"

fun add_blocks :: "string list \<Rightarrow> (string \<rightharpoonup> nat) \<Rightarrow> IndexFactory \<Rightarrow> error + IndexFactory" where
  "add_blocks [] dims f = Inr f"
| "add_blocks (varName # ns) dims f =
     (if hasVar f varName then add_blocks ns dims f
      else (case dims varName of
              None \<Rightarrow> Inl KeyError
            | Some d \<Rightarrow> add_blocks ns dims (addVar varName (int d) f)))"

definition makeIndexFactory :: "CyLPModel \<Rightarrow> store \<Rightarrow> error + CyLPModel" where
  "makeIndexFactory m h =
     then_do (index_loop (constraints m) (map (\<lambda>v. name (vars h v)) (variables m)) ([], Map.empty, 0))
       (\<lambda>(names, dims, n).
     then_do (add_blocks names dims (inds m))
       (\<lambda>f. Inr (m\<lparr>allVarNames := names, allParentVarDims := dims, mRows := n, inds := f\<rparr>)))"

text \<open>
  Modelled from the spec: \<^verbatim>\<open>sparseConcat\<close> of \<^verbatim>\<open>CyLP.py.utils.sparseUtil\<close>, which is not among
  the sources.  The spec asks for a primitive that stacks blocks vertically and horizontally
  and starts from nothing (\<^verbatim>\<open>None\<close>); a one-dimensional array counts as one row.  Where the
  two blocks do not line up, the shorter side is filled with zeros.
\<close>

fun as_rows :: "ndarray \<Rightarrow> nat \<times> real list list" where
  "as_rows (Vec xs) = (length xs, [xs])"
| "as_rows (Mat n rows) = (n, rows)"

definition pad_row :: "nat \<Rightarrow> real list \<Rightarrow> real list" where
  "pad_row n xs = xs @ replicate (n - length xs) 0"

definition sparseConcat_v :: "ndarray option \<Rightarrow> ndarray \<Rightarrow> ndarray" where
  "sparseConcat_v a b =
     (case a of
        None \<Rightarrow> (case as_rows b of (nb, rb) \<Rightarrow> Mat nb rb)
      | Some a' \<Rightarrow>
          (case (as_rows a', as_rows b) of
             ((na, ra), (nb, rb)) \<Rightarrow>
               Mat (max na nb) (map (pad_row (max na nb)) ra @ map (pad_row (max na nb)) rb)))"

definition sparseConcat_h :: "ndarray option \<Rightarrow> ndarray \<Rightarrow> ndarray" where
  "sparseConcat_h a b =
     (case a of
        None \<Rightarrow> (case as_rows b of (nb, rb) \<Rightarrow> Mat nb rb)
      | Some a' \<Rightarrow>
          (case (as_rows a', as_rows b) of
             ((na, ra), (nb, rb)) \<Rightarrow>
               Mat (na + nb)
                 (map (\<lambda>i. (if i < length ra then ra ! i else replicate na 0) @
                            (if i < length rb then rb ! i else replicate nb 0))
                    [0..<max (length ra) (length rb)])))"

text \<open>
  \<^verbatim>\<open>coef[var.indices] += value\<close> on the one-dimensional \<^verbatim>\<open>coef\<close>: numpy reads
  \<^verbatim>\<open>coef[var.indices]\<close>, adds \<^verbatim>\<open>value\<close> to it in place (which fails when the sum would have
  another shape) and assigns the result back.  The sum is the exact one of the reals.
\<close>

definition np_iadd_at :: "real list \<Rightarrow> int list option \<Rightarrow> ndarray \<Rightarrow> error + real list" where
  "np_iadd_at coef idx v =
     (case idx of
        None \<Rightarrow> then_do (np_broadcast_row (length coef) (Array v)) (\<lambda>row. Inr (map2 (+) coef row))
      | Some is \<Rightarrow>
          then_do (np_indices (length coef) is) (\<lambda>js.
          then_do (case v of
                     Vec ys \<Rightarrow> (if length ys = length js then Inr ys
                                else if length ys = 1 then Inr (replicate (length js) (hd ys))
                                else Inl ValueError)
                   | Mat _ _ \<Rightarrow> Inl ValueError) (\<lambda>ys.
            Inr (put_at coef js (map2 (+) (map (\<lambda>j. coef ! j) js) ys)))))"

fun add_keys :: "store \<Rightarrow> CyLPConstraint \<Rightarrow> ref list \<Rightarrow> real list \<Rightarrow> error + real list" where
  "add_keys h c [] coef = Inr coef"
| "add_keys h c (var # ks) coef =
     (case map_of (varCoefs c) var of
        None \<Rightarrow> Inl KeyError
      | Some a \<Rightarrow>
          (case np_iadd_at coef (indices (vars h var)) (arrs h a) of
             Inl e \<Rightarrow> Inl e
           | Inr coef' \<Rightarrow> add_keys h c ks coef'))"

fun stack_keys :: "store \<Rightarrow> CyLPConstraint \<Rightarrow> ref list \<Rightarrow> ndarray \<Rightarrow> error + ndarray" where
  "stack_keys h c [] coef = Inr coef"
| "stack_keys h c (var # ks) coef =
     (case map_of (varCoefs c) var of
        None \<Rightarrow> Inl KeyError
      | Some a \<Rightarrow> stack_keys h c ks (sparseConcat_v (Some coef) (arrs h a)))"

text \<open>The body of the loop of \<^verbatim>\<open>generateVarMatrix\<close>: the block of one constraint.\<close>

definition constraint_block :: "store \<Rightarrow> string \<Rightarrow> nat \<Rightarrow> CyLPConstraint \<Rightarrow> error + ndarray" where
  "constraint_block h varName d c =
     (let keys = filter (\<lambda>k. name (vars h k) = varName) (map fst (varCoefs c))
      in if keys = [] then
           (case nRows c of
              None \<Rightarrow> Inl TypeError
            | Some n \<Rightarrow> Inr (Mat d (replicate n (replicate d 0))))
         else if nRows c = Some 1 then
           then_do (add_keys h c keys (replicate d 0)) (\<lambda>coef. Inr (Vec coef))
         else
           (case map_of (varCoefs c) (hd keys) of
              None \<Rightarrow> Inl KeyError
            | Some a \<Rightarrow> stack_keys h c (tl keys) (arrs h a)))"

fun var_matrix_loop :: "store \<Rightarrow> string \<Rightarrow> nat \<Rightarrow> CyLPConstraint list \<Rightarrow> ndarray option \<Rightarrow> error + ndarray option" where
  "var_matrix_loop h varName d [] mainCoef = Inr mainCoef"
| "var_matrix_loop h varName d (c # cs) mainCoef =
     (case constraint_block h varName d c of
        Inl e \<Rightarrow> Inl e
      | Inr coef \<Rightarrow> var_matrix_loop h varName d cs (Some (sparseConcat_v mainCoef coef)))"

definition generateVarMatrix :: "CyLPModel \<Rightarrow> string \<Rightarrow> store \<Rightarrow> error + ndarray option" where
  "generateVarMatrix m varName h =
     (case allParentVarDims m varName of
        None \<Rightarrow> Inl KeyError
      | Some d \<Rightarrow> var_matrix_loop h varName d (constraints m) None)"

fun master_loop :: "CyLPModel \<Rightarrow> store \<Rightarrow> string list \<Rightarrow> ndarray option \<Rightarrow> error + ndarray option" where
  "master_loop m h [] masterCoefMat = Inr masterCoefMat"
| "master_loop m h (varName # ns) masterCoefMat =
     (case generateVarMatrix m varName h of
        Inl e \<Rightarrow> Inl e
      | Inr None \<Rightarrow> Inl TypeError
      | Inr (Some vmat) \<Rightarrow> master_loop m h ns (Some (sparseConcat_h masterCoefMat vmat)))"

text \<open>\<^verbatim>\<open>np.concatenate((acc, b), axis=0)\<close> onto a one-dimensional \<^verbatim>\<open>acc\<close>.\<close>

definition np_concatenate :: "store \<Rightarrow> real list \<Rightarrow> val \<Rightarrow> error + real list" where
  "np_concatenate h acc b =
     (case b of
        Arr a \<Rightarrow> (case arrs h a of Vec xs \<Rightarrow> Inr (acc @ xs) | Mat _ _ \<Rightarrow> Inl ValueError)
      | _ \<Rightarrow> Inl ValueError)"

fun bounds_loop :: "store \<Rightarrow> CyLPConstraint list \<Rightarrow> real list \<times> real list \<Rightarrow> error + (real list \<times> real list)" where
  "bounds_loop h [] acc = Inr acc"
| "bounds_loop h (c # cs) (c_lower, c_upper) =
     (if \<not> isRange c then
        (case np_concatenate h c_lower (clower c) of
           Inl e \<Rightarrow> Inl e
         | Inr lo \<Rightarrow>
             (case np_concatenate h c_upper (cupper c) of
                Inl e \<Rightarrow> Inl e
              | Inr up \<Rightarrow> bounds_loop h cs (lo, up)))
      else bounds_loop h cs (c_lower, c_upper))"

record matrices =
  masterCoefMat :: "ndarray option"
  c_lower :: "real list"
  c_upper :: "real list"
  v_lower :: "real list"
  v_upper :: "real list"

definition makeMatrices :: "CyLPModel \<Rightarrow> store \<Rightarrow> error + (matrices \<times> CyLPModel)" where
  "makeMatrices m h =
     then_do (makeIndexFactory m h) (\<lambda>m1.
     then_do (master_loop m1 h (allVarNames m1) None) (\<lambda>coefMat.
     then_do (bounds_loop h (constraints m1) ([], [])) (\<lambda>(lo, up).
       Inr (\<lparr>masterCoefMat = coefMat, c_lower = lo, c_upper = up,
              v_lower = concat (map (\<lambda>v. lower (vars h v)) (variables m1)),
              v_upper = concat (map (\<lambda>v. upper (vars h v)) (variables m1))\<rparr>, m1))))"

text \<open>
  \<^verbatim>\<open>addConstraint\<close>: the expression is evaluated, and when the outcome is not a range it is
  evaluated a second time and that second outcome is appended.
\<close>

definition addConstraint :: "CyLPModel \<Rightarrow> val \<Rightarrow> store \<Rightarrow> error + (CyLPModel \<times> store)" where
  "addConstraint m cons h =
     then_do (evaluate cons h) (\<lambda>(c, h1).
     then_do (if \<not> isRange c
              then then_do (evaluate cons h1)
                     (\<lambda>(c2, h2). Inr (m\<lparr>constraints := constraints m @ [c2]\<rparr>, h2))
              else Inr (m, h1)) (\<lambda>(m1, h2).
     then_do (makeMatrices m1 h2) (\<lambda>(res, m2). Inr (m2, h2))))"

subsection \<open>Auxiliary notions for the statements\<close>

text \<open>A store with no object yet: the first reference handed out is 0.\<close>

definition store_init :: store where
  "store_init =
     \<lparr>vars = (\<lambda>r. CyLPVar_init r [] 0 False None None), exprs = (\<lambda>r. NoneV),
      arrs = (\<lambda>r. Vec []), nxt = 0\<rparr>"


text \<open>
  The scenario of the usage example: a model with a new variable \<^verbatim>\<open>x\<close> of dimension 3, the
  array \<^verbatim>\<open>x_u = CyLPArray([2.0, 3.5])\<close>, and the expression \<^verbatim>\<open>1.1 <= x[1:3] <= x_u\<close>, which
  Python builds as \<^verbatim>\<open>x[1:3].__ge__(1.1)\<close> followed by \<^verbatim>\<open>x[1:3].__le__(x_u)\<close> on the same
  slice object.  The result is the variable, the model, the expression and the store.
\<close>

definition range_scenario :: "error + (ref \<times> CyLPModel \<times> val \<times> store)" where
  "range_scenario =
     (let (x, m, h0) = addVariable ''x'' 3 False CyLPModel_init store_init;
          (x_u, h1) = new_arr (Vec [2, 35 / 10]) h0
      in then_do (CyLPVar_getitem x (SliceKey 1 3) h1) (\<lambda>(xs, h2).
           (let (v1, h3) = CyLPExpr_ge (Var xs) (Num (11 / 10)) h2;
                (v2, h4) = CyLPExpr_le (Var xs) (Arr x_u) h3
            in Inr (x, m, v2, h4))))"

text \<open>The same slice with the array bound alone: \<^verbatim>\<open>x[1:3] <= x_u\<close>.\<close>

definition range_upper_scenario :: "error + (ref \<times> val \<times> store)" where
  "range_upper_scenario =
     (let (x, m, h0) = addVariable ''x'' 3 False CyLPModel_init store_init;
          (x_u, h1) = new_arr (Vec [2, 35 / 10]) h0
      in then_do (CyLPVar_getitem x (SliceKey 1 3) h1) (\<lambda>(xs, h2).
           (let (v, h3) = CyLPExpr_le (Var xs) (Arr x_u) h2 in Inr (x, v, h3))))"

text \<open>
  A variable as \<^verbatim>\<open>addVariable\<close> makes it, whatever its bounds have become since: no parent,
  no indices, and bound arrays of its dimension.
\<close>

definition bare_var :: "store \<Rightarrow> ref \<Rightarrow> bool" where
  "bare_var h v =
     (parent (vars h v) = None \<and> indices (vars h v) = None \<and>
      parentDim (vars h v) = dim (vars h v) \<and>
      length (lower (vars h v)) = dim (vars h v) \<and> length (upper (vars h v)) = dim (vars h v))"

text \<open>
  A range constraint on a new variable: \<^verbatim>\<open>y = addVariable('y', 2)\<close> and the expression
  \<^verbatim>\<open>y >= 0\<close>.  The result is the variable, the expression and the store.
\<close>

definition stale_scenario :: "ref \<times> val \<times> store" where
  "stale_scenario =
     (let (y, m, h0) = addVariable ''y'' 2 False CyLPModel_init store_init;
          (e, h1) = CyLPExpr_ge (Var y) (Num 0) h0
      in (y, e, h1))"

text \<open>
  A subtraction of a term with an array coefficient: \<^verbatim>\<open>x = addVariable('x', 1)\<close>,
  \<^verbatim>\<open>y = addVariable('y', 2)\<close>, \<^verbatim>\<open>A = CyLPArray([1, 2])\<close> and the expression \<^verbatim>\<open>x - A * y <= 5\<close>,
  which Python builds as \<^verbatim>\<open>y.__rmul__(A)\<close>, then \<^verbatim>\<open>__rsub__\<close> of that node with \<^verbatim>\<open>x\<close>, then
  \<^verbatim>\<open>__le__\<close> of the difference with 5.
\<close>

definition sign_scenario :: "ref \<times> ref \<times> ref \<times> CyLPModel \<times> val \<times> store" where
  "sign_scenario =
     (let (x, m0, h0) = addVariable ''x'' 1 False CyLPModel_init store_init;
          (y, m1, h1) = addVariable ''y'' 2 False m0 h0;
          (A, h2) = new_arr (Vec [1, 2]) h1;
          (n1, h3) = CyLPExpr_rmul (Var y) (Arr A) h2;
          (n2, h4) = CyLPExpr_rsub n1 (Var x) h3;
          (n3, h5) = CyLPExpr_le n2 (Num 5) h4
      in (x, y, A, m1, n3, h5))"

text \<open>A variable of dimension 3 and a one-dimensional array of two entries.\<close>

definition vector_scenario :: "ref \<times> ref \<times> store" where
  "vector_scenario =
     (let (x, m0, h0) = addVariable ''x'' 3 False CyLPModel_init store_init;
          (a, h1) = new_arr (Vec [1, 2]) h0
      in (x, a, h1))"

text \<open>
  Two constraints on two variables: \<^verbatim>\<open>x = addVariable('x', 1)\<close>, \<^verbatim>\<open>y = addVariable('y', 1)\<close>,
  then \<^verbatim>\<open>addConstraint(2 * y <= 1)\<close> and \<^verbatim>\<open>addConstraint(2 * x <= 1)\<close>.
\<close>

definition order_scenario :: "error + (ref \<times> ref \<times> CyLPModel \<times> store)" where
  "order_scenario =
     (let (x, m0, h0) = addVariable ''x'' 1 False CyLPModel_init store_init;
          (y, m1, h1) = addVariable ''y'' 1 False m0 h0;
          (n1, h2) = CyLPExpr_rmul (Var y) (Num 2) h1;
          (e1, h3) = CyLPExpr_le n1 (Num 1) h2
      in then_do (addConstraint m1 e1 h3) (\<lambda>(m2, h4).
           (let (n2, h5) = CyLPExpr_rmul (Var x) (Num 2) h4;
                (e2, h6) = CyLPExpr_le n2 (Num 1) h5
            in then_do (addConstraint m2 e2 h6) (\<lambda>(m3, h7). Inr (x, y, m3, h7)))))"

text \<open>
  A coefficient times a slice: \<^verbatim>\<open>x = addVariable('x', 3)\<close> and
  \<^verbatim>\<open>addConstraint(A * x[1:3] <= b)\<close>, once with the matrix \<^verbatim>\<open>A = [[1, 2], [3, 4]]\<close> and
  \<^verbatim>\<open>b = CyLPArray([5, 6])\<close>, once with the vector \<^verbatim>\<open>A = CyLPArray([1, 2])\<close> and \<^verbatim>\<open>b = 5\<close>.
\<close>

definition matrix_slice_scenario :: "error + (CyLPModel \<times> store)" where
  "matrix_slice_scenario =
     (let (x, m0, h0) = addVariable ''x'' 3 False CyLPModel_init store_init;
          (A, h1) = new_arr (Mat 2 [[1, 2], [3, 4]]) h0;
          (b, h2) = new_arr (Vec [5, 6]) h1
      in then_do (CyLPVar_getitem x (SliceKey 1 3) h2) (\<lambda>(xs, h3).
           (let (n1, h4) = CyLPExpr_rmul (Var xs) (Arr A) h3;
                (e, h5) = CyLPExpr_le n1 (Arr b) h4
            in addConstraint m0 e h5)))"

definition vector_slice_scenario :: "error + (CyLPModel \<times> store)" where
  "vector_slice_scenario =
     (let (x, m0, h0) = addVariable ''x'' 3 False CyLPModel_init store_init;
          (a, h1) = new_arr (Vec [1, 2]) h0
      in then_do (CyLPVar_getitem x (SliceKey 1 3) h1) (\<lambda>(xs, h2).
           (let (n1, h3) = CyLPExpr_rmul (Var xs) (Arr a) h2;
                (e, h4) = CyLPExpr_le n1 (Num 5) h3
            in addConstraint m0 e h4)))"

subsection \<open>CyLPArray\<close>

text \<open>
  The special methods of \<^verbatim>\<open>CyLPArray\<close>.  Each of the eight methods the class defines returns
  \<^verbatim>\<open>NotImplemented\<close> when the other operand is an instance of \<^verbatim>\<open>CyLPExpr\<close>, and the result of
  the method of \<^verbatim>\<open>np.ndarray\<close> otherwise.  That result is a numeric array, also for a
  symbolic operand, as the docstring of the class says of plain arrays; it is kept abstract
  as \<open>NdarrayResult\<close>.  The class defines no \<^verbatim>\<open>__eq__\<close>, so \<^verbatim>\<open>__eq__\<close> is the inherited one.
\<close>

datatype special =
    M_le | M_ge | M_eq | M_mul | M_rmul | M_add | M_radd | M_sub | M_rsub

datatype outcome = NotImplemented | NdarrayResult special

definition CyLPArray_le :: "val \<Rightarrow> outcome" where
  "CyLPArray_le other = (if isExpr other then NotImplemented else NdarrayResult M_le)"

definition CyLPArray_ge :: "val \<Rightarrow> outcome" where
  "CyLPArray_ge other = (if isExpr other then NotImplemented else NdarrayResult M_ge)"

definition CyLPArray_mul :: "val \<Rightarrow> outcome" where
  "CyLPArray_mul other = (if isExpr other then NotImplemented else NdarrayResult M_mul)"

definition CyLPArray_rmul :: "val \<Rightarrow> outcome" where
  "CyLPArray_rmul other = (if isExpr other then NotImplemented else NdarrayResult M_rmul)"

definition CyLPArray_add :: "val \<Rightarrow> outcome" where
  "CyLPArray_add other = (if isExpr other then NotImplemented else NdarrayResult M_add)"

definition CyLPArray_radd :: "val \<Rightarrow> outcome" where
  "CyLPArray_radd other = (if isExpr other then NotImplemented else NdarrayResult M_radd)"

definition CyLPArray_rsub :: "val \<Rightarrow> outcome" where
  "CyLPArray_rsub other = (if isExpr other then NotImplemented else NdarrayResult M_rsub)"

definition CyLPArray_sub :: "val \<Rightarrow> outcome" where
  "CyLPArray_sub other = (if isExpr other then NotImplemented else NdarrayResult M_sub)"

fun CyLPArray_call :: "special \<Rightarrow> val \<Rightarrow> outcome" where
  "CyLPArray_call M_le other = CyLPArray_le other"
| "CyLPArray_call M_ge other = CyLPArray_ge other"
| "CyLPArray_call M_mul other = CyLPArray_mul other"
| "CyLPArray_call M_rmul other = CyLPArray_rmul other"
| "CyLPArray_call M_add other = CyLPArray_add other"
| "CyLPArray_call M_radd other = CyLPArray_radd other"
| "CyLPArray_call M_rsub other = CyLPArray_rsub other"
| "CyLPArray_call M_sub other = CyLPArray_sub other"
| "CyLPArray_call M_eq other = NdarrayResult M_eq"

text \<open>
  \<^verbatim>\<open>a op e\<close> for a \<^verbatim>\<open>CyLPArray\<close> \<^verbatim>\<open>a\<close> on the left: Python calls the method of \<^verbatim>\<open>a\<close>, and when
  that returns \<^verbatim>\<open>NotImplemented\<close> the reflected method of \<^verbatim>\<open>e\<close>, which for a \<^verbatim>\<open>CyLPExpr\<close> is
  \<^verbatim>\<open>__ge__\<close> for \<^verbatim>\<open><=\<close>, \<^verbatim>\<open>__le__\<close> for \<^verbatim>\<open>>=\<close>, \<^verbatim>\<open>__eq__\<close> for \<^verbatim>\<open>==\<close>, and \<^verbatim>\<open>__radd__\<close>,
  \<^verbatim>\<open>__rsub__\<close>, \<^verbatim>\<open>__rmul__\<close>.
\<close>

datatype binop = Le | Ge | Eq | Add | Sub | Mul

fun forward :: "binop \<Rightarrow> special" where
  "forward Le = M_le"
| "forward Ge = M_ge"
| "forward Eq = M_eq"
| "forward Add = M_add"
| "forward Sub = M_sub"
| "forward Mul = M_mul"

fun CyLPExpr_reflected :: "binop \<Rightarrow> val \<Rightarrow> val \<Rightarrow> store \<Rightarrow> val \<times> store" where
  "CyLPExpr_reflected Le e a h = CyLPExpr_ge e a h"
| "CyLPExpr_reflected Ge e a h = CyLPExpr_le e a h"
| "CyLPExpr_reflected Eq e a h = CyLPExpr_eq e a h"
| "CyLPExpr_reflected Add e a h = CyLPExpr_radd e a h"
| "CyLPExpr_reflected Sub e a h = CyLPExpr_rsub e a h"
| "CyLPExpr_reflected Mul e a h = CyLPExpr_rmul e a h"

datatype op_result = Built val store | Numeric special

definition array_op :: "binop \<Rightarrow> val \<Rightarrow> val \<Rightarrow> store \<Rightarrow> op_result" where
  "array_op bop a e h =
     (case CyLPArray_call (forward bop) e of
        NotImplemented \<Rightarrow> (case CyLPExpr_reflected bop e a h of (v, h1) \<Rightarrow> Built v h1)
      | NdarrayResult m \<Rightarrow> Numeric m)"

section \<open>Properties\<close>

subsection \<open>IndexFactory\<close>

lemma set_py_range: "set (py_range a b) = {a..<b}"
  by (auto simp: py_range_def)

lemma distinct_py_range: "distinct (py_range a b)"
  by (simp add: py_range_def)

lemma length_py_range: "length (py_range a b) = nat (b - a)"
  by (simp add: py_range_def)

lemma all_indices_upd_new:
  assumes "idx n = None"
  shows "all_indices (idx(n \<mapsto> v)) = set v \<union> all_indices idx"
proof (rule set_eqI)
  fix i
  have "(\<exists>m xs. (idx(n \<mapsto> v)) m = Some xs \<and> i \<in> set xs)
        \<longleftrightarrow> i \<in> set v \<or> (\<exists>m xs. idx m = Some xs \<and> i \<in> set xs)"
    using assms by (metis (full_types) fun_upd_apply option.distinct(1) option.inject)
  then show "i \<in> all_indices (idx(n \<mapsto> v)) \<longleftrightarrow> i \<in> set v \<union> all_indices idx"
    by (simp add: all_indices_def)
qed

lemma all_indices_upd_app:
  assumes "idx n = Some old"
  shows "all_indices (idx(n \<mapsto> old @ v)) = set v \<union> all_indices idx"
proof (rule set_eqI)
  fix i
  have "(\<exists>m xs. (idx(n \<mapsto> old @ v)) m = Some xs \<and> i \<in> set xs)
        \<longleftrightarrow> i \<in> set v \<or> (\<exists>m xs. idx m = Some xs \<and> i \<in> set xs)"
  proof
    assume "\<exists>m xs. (idx(n \<mapsto> old @ v)) m = Some xs \<and> i \<in> set xs"
    then obtain m xs where m: "(idx(n \<mapsto> old @ v)) m = Some xs" "i \<in> set xs" by blast
    show "i \<in> set v \<or> (\<exists>m xs. idx m = Some xs \<and> i \<in> set xs)"
    proof (cases "m = n")
      case True
      then show ?thesis using m assms by auto
    next
      case False
      then show ?thesis using m by auto
    qed
  next
    assume r: "i \<in> set v \<or> (\<exists>m xs. idx m = Some xs \<and> i \<in> set xs)"
    show "\<exists>m xs. (idx(n \<mapsto> old @ v)) m = Some xs \<and> i \<in> set xs"
    proof (cases "i \<in> set v")
      case True
      then have "(idx(n \<mapsto> old @ v)) n = Some (old @ v) \<and> i \<in> set (old @ v)" by simp
      then show ?thesis by blast
    next
      case False
      with r obtain m xs where m: "idx m = Some xs" "i \<in> set xs" by blast
      show ?thesis
      proof (cases "m = n")
        case True
        then have "(idx(n \<mapsto> old @ v)) n = Some (old @ v) \<and> i \<in> set (old @ v)"
          using m assms by simp
        then show ?thesis by blast
      next
        case False
        then have "(idx(n \<mapsto> old @ v)) m = Some xs" using m by simp
        then show ?thesis using m by blast
      qed
    qed
  qed
  then show "i \<in> all_indices (idx(n \<mapsto> old @ v)) \<longleftrightarrow> i \<in> set v \<union> all_indices idx"
    by (simp add: all_indices_def)
qed

lemma ranges_ok_extend:
  assumes ok: "ranges_ok idx cur" and k: "0 < k"
  shows "ranges_ok (idx(n \<mapsto> (case idx n of Some old \<Rightarrow> old @ py_range cur (cur + k)
                                   | None \<Rightarrow> py_range cur (cur + k)))) (cur + k)"
proof -
  let ?rg = "py_range cur (cur + k)"
  from ok have cur: "0 \<le> cur"
    and dist: "\<And>m xs. idx m = Some xs \<Longrightarrow> distinct xs"
    and disj: "\<And>a b xs ys. idx a = Some xs \<Longrightarrow> idx b = Some ys \<Longrightarrow> a \<noteq> b \<Longrightarrow> set xs \<inter> set ys = {}"
    and un: "all_indices idx = {0..<cur}"
    unfolding ranges_ok_def by blast+
  have below: "\<And>m xs. idx m = Some xs \<Longrightarrow> set xs \<subseteq> {0..<cur}"
    using un by (auto simp: all_indices_def)
  have fresh: "\<And>m xs. idx m = Some xs \<Longrightarrow> set xs \<inter> set ?rg = {}"
    using below by (fastforce simp: set_py_range)
  have grow: "set ?rg \<union> {0..<cur} = {0..<cur + k}"
    using cur k by (auto simp: set_py_range)
  show ?thesis
  proof (cases "idx n")
    case None
    have u: "all_indices (idx(n \<mapsto> ?rg)) = {0..<cur + k}"
      using all_indices_upd_new[of idx n ?rg, OF None] un grow by simp
    have d: "\<forall>a b xs ys. (idx(n \<mapsto> ?rg)) a = Some xs \<and> (idx(n \<mapsto> ?rg)) b = Some ys \<and> a \<noteq> b
               \<longrightarrow> set xs \<inter> set ys = {}"
    proof (intro allI impI, elim conjE)
      fix a b xs ys
      assume a: "(idx(n \<mapsto> ?rg)) a = Some xs" and b: "(idx(n \<mapsto> ?rg)) b = Some ys"
        and ne: "a \<noteq> b"
      show "set xs \<inter> set ys = {}"
      proof (cases "a = n")
        case True
        then have xs: "xs = ?rg" and b': "idx b = Some ys" using a b ne by auto
        show ?thesis using fresh[OF b'] xs by auto
      next
        case False
        then have a': "idx a = Some xs" using a by simp
        show ?thesis
        proof (cases "b = n")
          case True
          then have "ys = ?rg" using b by simp
          then show ?thesis using fresh[OF a'] by auto
        next
          case False
          then show ?thesis using disj[OF a' _ ne] b by simp
        qed
      qed
    qed
    have "\<forall>a xs. (idx(n \<mapsto> ?rg)) a = Some xs \<longrightarrow> distinct xs"
      using dist by (auto simp: distinct_py_range)
    then show ?thesis
      unfolding ranges_ok_def using None cur k d u by simp
  next
    case (Some old)
    have u: "all_indices (idx(n \<mapsto> old @ ?rg)) = {0..<cur + k}"
      using all_indices_upd_app[of idx n old ?rg, OF Some] un grow by simp
    have d: "\<forall>a b xs ys. (idx(n \<mapsto> old @ ?rg)) a = Some xs \<and> (idx(n \<mapsto> old @ ?rg)) b = Some ys \<and> a \<noteq> b
               \<longrightarrow> set xs \<inter> set ys = {}"
    proof (intro allI impI, elim conjE)
      fix a b xs ys
      assume a: "(idx(n \<mapsto> old @ ?rg)) a = Some xs" and b: "(idx(n \<mapsto> old @ ?rg)) b = Some ys"
        and ne: "a \<noteq> b"
      show "set xs \<inter> set ys = {}"
      proof (cases "a = n")
        case True
        then have xs: "xs = old @ ?rg" and b': "idx b = Some ys" using a b ne by auto
        show ?thesis using disj[OF Some b'] fresh[OF b'] True ne xs by auto
      next
        case False
        then have a': "idx a = Some xs" using a by simp
        show ?thesis
        proof (cases "b = n")
          case True
          then have "ys = old @ ?rg" using b by simp
          then show ?thesis using disj[OF a' Some] fresh[OF a'] False by auto
        next
          case False
          then show ?thesis using disj[OF a' _ ne] b by simp
        qed
      qed
    qed
    have "\<forall>a xs. (idx(n \<mapsto> old @ ?rg)) a = Some xs \<longrightarrow> distinct xs"
      using dist fresh[OF Some] dist[OF Some] by (auto simp: distinct_py_range)
    then show ?thesis
      unfolding ranges_ok_def using Some cur k d u by simp
  qed
qed

lemma ranges_ok_addVar:
  "ranges_ok (varIndex f) (currentVarIndex f) \<Longrightarrow> 0 < k \<Longrightarrow>
   ranges_ok (varIndex (addVar n k f)) (currentVarIndex (addVar n k f))"
  using ranges_ok_extend[of "varIndex f" "currentVarIndex f" k n]
  by (auto simp: addVar_def Let_def split: option.splits)

lemma currentVarIndex_addVar: "currentVarIndex (addVar n k f) = currentVarIndex f + k"
  by (auto simp: addVar_def Let_def split: option.splits)

lemma ranges_ok_addVars:
  "ranges_ok (varIndex f) (currentVarIndex f) \<Longrightarrow> \<forall>(n, k) \<in> set cs. 0 < k \<Longrightarrow>
   ranges_ok (varIndex (addVars cs f)) (currentVarIndex (addVars cs f)) \<and>
   currentVarIndex (addVars cs f) = currentVarIndex f + sum_list (map snd cs)"
proof (induction cs arbitrary: f)
  case Nil
  then show ?case by simp
next
  case (Cons c cs)
  obtain n k where c: "c = (n, k)" by (cases c)
  with Cons.prems have k: "0 < k" by simp
  have ok: "ranges_ok (varIndex (addVar n k f)) (currentVarIndex (addVar n k f))"
    by (rule ranges_ok_addVar[OF Cons.prems(1) k])
  have rest: "\<forall>(n, k) \<in> set cs. 0 < k" using Cons.prems(2) by simp
  from Cons.IH[OF ok rest] c
  show ?case by (auto simp: currentVarIndex_addVar)
qed

lemma ranges_ok_addConst:
  "ranges_ok (constIndex f) (currentConstIndex f) \<Longrightarrow> 0 < k \<Longrightarrow>
   ranges_ok (constIndex (addConst n k f)) (currentConstIndex (addConst n k f))"
  using ranges_ok_extend[of "constIndex f" "currentConstIndex f" k n]
  by (auto simp: addConst_def Let_def split: option.splits)

lemma currentConstIndex_addConst: "currentConstIndex (addConst n k f) = currentConstIndex f + k"
  by (auto simp: addConst_def Let_def split: option.splits)

lemma ranges_ok_addConsts:
  "ranges_ok (constIndex f) (currentConstIndex f) \<Longrightarrow> \<forall>(n, k) \<in> set cs. 0 < k \<Longrightarrow>
   ranges_ok (constIndex (addConsts cs f)) (currentConstIndex (addConsts cs f)) \<and>
   currentConstIndex (addConsts cs f) = currentConstIndex f + sum_list (map snd cs)"
proof (induction cs arbitrary: f)
  case Nil
  then show ?case by simp
next
  case (Cons c cs)
  obtain n k where c: "c = (n, k)" by (cases c)
  with Cons.prems have k: "0 < k" by simp
  have ok: "ranges_ok (constIndex (addConst n k f)) (currentConstIndex (addConst n k f))"
    by (rule ranges_ok_addConst[OF Cons.prems(1) k])
  have rest: "\<forall>(n, k) \<in> set cs. 0 < k" using Cons.prems(2) by simp
  from Cons.IH[OF ok rest] c
  show ?case by (auto simp: currentConstIndex_addConst)
qed

lemma ranges_ok_init: "ranges_ok Map.empty 0"
  by (simp add: ranges_ok_def all_indices_def)

lemma ranges_ok_laws: "ranges_ok idx cur \<Longrightarrow> namespace_laws idx cur"
  by (simp add: ranges_ok_def namespace_laws_def)

lemma readd_var:
  assumes ok: "ranges_ok (varIndex f) (currentVarIndex f)" and old: "varIndex f nm = Some old"
    and k: "0 < k"
  shows "\<exists>new. varIndex (addVar nm k f) nm = Some (old @ new) \<and> length new = nat k \<and>
           distinct new \<and> set new \<inter> all_indices (varIndex f) = {}"
proof -
  let ?new = "py_range (currentVarIndex f) (currentVarIndex f + k)"
  have "varIndex (addVar nm k f) nm = Some (old @ ?new)"
    using old k by (simp add: addVar_def Let_def)
  moreover have "set ?new \<inter> all_indices (varIndex f) = {}"
    using ok by (auto simp: ranges_ok_def set_py_range)
  ultimately show ?thesis
    using k by (auto simp: length_py_range distinct_py_range)
qed

lemma readd_const:
  assumes ok: "ranges_ok (constIndex f) (currentConstIndex f)" and old: "constIndex f nm = Some old"
    and k: "0 < k"
  shows "\<exists>new. constIndex (addConst nm k f) nm = Some (old @ new) \<and> length new = nat k \<and>
           distinct new \<and> set new \<inter> all_indices (constIndex f) = {}"
proof -
  let ?new = "py_range (currentConstIndex f) (currentConstIndex f + k)"
  have "constIndex (addConst nm k f) nm = Some (old @ ?new)"
    using old k by (simp add: addConst_def Let_def)
  moreover have "set ?new \<inter> all_indices (constIndex f) = {}"
    using ok by (auto simp: ranges_ok_def set_py_range)
  ultimately show ?thesis
    using k by (auto simp: length_py_range distinct_py_range)
qed

text \<open>
  Claim C6.  After any sequence of \<^verbatim>\<open>addVar\<close> calls (respectively \<^verbatim>\<open>addConst\<close> calls) with
  positive counts on a new factory, no index occurs twice in the list of one nm (the blocks
  a nm received are disjoint), the lists of two different names share no index, the
  indices assigned are exactly those from 0 up to the sum of the counts, so there are as many
  as that sum, and one more call on a nm already present keeps the old list as a prefix
  and appends a block of the requested length, disjoint from every index assigned before.
\<close>

theorem IndexFactory_ranges_disjoint:
  assumes pos: "\<forall>(n, k) \<in> set cs. 0 < k"
  shows "namespace_laws (varIndex (addVars cs IndexFactory_init)) (sum_list (map snd cs)) \<and>
         namespace_laws (constIndex (addConsts cs IndexFactory_init)) (sum_list (map snd cs)) \<and>
         (\<forall>nm k old. varIndex (addVars cs IndexFactory_init) nm = Some old \<and> 0 < k \<longrightarrow>
            (\<exists>new. varIndex (addVar nm k (addVars cs IndexFactory_init)) nm = Some (old @ new) \<and>
                   length new = nat k \<and> distinct new \<and>
                   set new \<inter> all_indices (varIndex (addVars cs IndexFactory_init)) = {})) \<and>
         (\<forall>nm k old. constIndex (addConsts cs IndexFactory_init) nm = Some old \<and> 0 < k \<longrightarrow>
            (\<exists>new. constIndex (addConst nm k (addConsts cs IndexFactory_init)) nm = Some (old @ new) \<and>
                   length new = nat k \<and> distinct new \<and>
                   set new \<inter> all_indices (constIndex (addConsts cs IndexFactory_init)) = {}))"
proof -
  have v0: "ranges_ok (varIndex IndexFactory_init) (currentVarIndex IndexFactory_init)"
    by (simp add: IndexFactory_init_def ranges_ok_init)
  have c0: "ranges_ok (constIndex IndexFactory_init) (currentConstIndex IndexFactory_init)"
    by (simp add: IndexFactory_init_def ranges_ok_init)
  have cur0: "currentVarIndex IndexFactory_init = 0" "currentConstIndex IndexFactory_init = 0"
    by (simp_all add: IndexFactory_init_def)
  let ?fv = "addVars cs IndexFactory_init" and ?fc = "addConsts cs IndexFactory_init"
  from ranges_ok_addVars[OF v0 pos]
  have v: "ranges_ok (varIndex ?fv) (currentVarIndex ?fv)"
    and vc: "currentVarIndex ?fv = sum_list (map snd cs)"
    using cur0 by auto
  from ranges_ok_addConsts[OF c0 pos]
  have c: "ranges_ok (constIndex ?fc) (currentConstIndex ?fc)"
    and cc: "currentConstIndex ?fc = sum_list (map snd cs)"
    using cur0 by auto
  have 1: "namespace_laws (varIndex ?fv) (sum_list (map snd cs))"
    using ranges_ok_laws[OF v] vc by simp
  have 2: "namespace_laws (constIndex ?fc) (sum_list (map snd cs))"
    using ranges_ok_laws[OF c] cc by simp
  have 3: "\<forall>nm k old. varIndex ?fv nm = Some old \<and> 0 < k \<longrightarrow>
            (\<exists>new. varIndex (addVar nm k ?fv) nm = Some (old @ new) \<and>
                   length new = nat k \<and> distinct new \<and> set new \<inter> all_indices (varIndex ?fv) = {})"
    using readd_var[OF v] by blast
  have 4: "\<forall>nm k old. constIndex ?fc nm = Some old \<and> 0 < k \<longrightarrow>
            (\<exists>new. constIndex (addConst nm k ?fc) nm = Some (old @ new) \<and>
                   length new = nat k \<and> distinct new \<and> set new \<inter> all_indices (constIndex ?fc) = {})"
    using readd_const[OF c] by blast
  from 1 2 3 4 show ?thesis by blast
qed

theorem IndexFactory_ranges_disjoint_witness:
  "(0::int) < 10 \<and> (0::int) < 5 \<and> (0::int) < 2 \<and>
   all_indices (varIndex (addVars [(''x'', 10), (''y'', 5), (''x'', 2)] IndexFactory_init)) = {0..<17} \<and>
   card (all_indices (constIndex (addConsts [(''x'', 10), (''y'', 5), (''x'', 2)] IndexFactory_init))) = 17"
  using IndexFactory_ranges_disjoint [of "[(''x'', 10), (''y'', 5), (''x'', 2)]"]
  by (simp add: namespace_laws_def)

subsection \<open>Comparisons need exactly one symbolic side\<close>




















lemma postfix_leaf: "getPostfix (Node i opr a b) =
   (if isExpr a then getPostfix a else [a]) @ (if isExpr b then getPostfix b else [b]) @ [Str opr]"
  by simp




subsection \<open>Range constraints\<close>

lemmas build_defs = addVariable_def new_var_def CyLPVar_init_def CyLPVar_getitem_def py_range_def
  new_arr_def new_node_def CyLPExpr_ge_def CyLPExpr_le_def get_expr_def set_expr_def
  CyLPModel_init_def store_init_def then_do_def Let_def truthy_int_def

lemmas eval_defs = evaluate_def perform_def perform_compare_def compare_bound_def
  perform_right_var_def write_lower_def write_upper_def bound_owner_def as_rhs_def
  np_setitem_def np_index_def np_broadcast_row_def sets_lower_def sets_upper_def
  is_cmp_def isExpr_def isVar_def operators_def pop_def var_in_def CyLPVar_repr_def
  CyLPConstraint_init_def add_name_def

lemmas model_defs = addConstraint_def makeMatrices_def makeIndexFactory_def

text \<open>
  With a bound of the slice's own length the write goes through: \<^verbatim>\<open>x[1:3] <= x_u\<close> leaves
  the constraint a range and sets \<^verbatim>\<open>x.upper\<close> at the positions 1 and 2.
\<close>

lemma range_upper_scenario_bounds:
  "\<exists>x cons h c h1.
     range_upper_scenario = Inr (x, cons, h) \<and>
     evaluate cons h = Inr (c, h1) \<and> isRange c \<and>
     lower (vars h1 x) = [- getCoinInfinity, - getCoinInfinity, - getCoinInfinity] \<and>
     upper (vars h1 x) = [getCoinInfinity, 2, 7 / 2]"
  apply (simp add: range_upper_scenario_def build_defs upto_rec1 eval_defs then_do_def)
  apply (simp add: numeral_3_eq_3 numeral_2_eq_2)
  done

text \<open>
  Claim C2, at its own scenario \<^verbatim>\<open>1.1 <= x[1:3] <= CyLPArray([2.0, 3.5])\<close> on a new variable
  of dimension 3.  The claim asks that \<^verbatim>\<open>x.lower\<close> becomes 1.1 at the positions 1 and 2 and
  that no constraint is stored.  For the scalar bound \<^verbatim>\<open>perform\<close> builds an array of
  \<^verbatim>\<open>var.parentDim\<close> entries, 3 here, and assigns it at the 2 positions of the slice, which
  numpy refuses: \<^verbatim>\<open>evaluate\<close> raises \<^verbatim>\<open>ValueError\<close>, and so does \<^verbatim>\<open>addConstraint\<close>.
\<close>

theorem range_slice_scenario_raises:
  "\<exists>x xs m cons h.
     range_scenario = Inr (x, m, cons, h) \<and>
     cons = Node 4 ''<='' (Node 3 ''>='' (Var xs) (Num (11 / 10))) (Arr 1) \<and>
     dim (vars h xs) = 2 \<and> parentDim (vars h xs) = 3 \<and> indices (vars h xs) = Some [1, 2] \<and>
     evaluate cons h = Inl ValueError \<and>
     addConstraint m cons h = Inl ValueError"
  by (simp add: range_scenario_def build_defs upto_rec1 eval_defs model_defs)

lemma makeMatrices_constraints:
  "makeMatrices m h = Inr (res, m2) \<Longrightarrow> constraints m2 = constraints m \<and> variables m2 = variables m"
  by (auto simp: makeMatrices_def makeIndexFactory_def then_do_def split: sum.splits prod.splits)

lemma evaluate_ge:
  assumes "bare_var h v"
  shows "\<exists>cons h2. evaluate (Node i ''>='' (Var v) (Num c)) h = Inr (cons, h2) \<and>
           isRange cons \<and> varCoefs cons = [] \<and>
           lower (vars h2 v) = replicate (dim (vars h v)) c \<and>
           upper (vars h2 v) = upper (vars h v)"
  using assms
  by (simp add: bare_var_def eval_defs then_do_def Let_def new_arr_def new_node_def)

lemma evaluate_le:
  assumes "bare_var h v"
  shows "\<exists>cons h2. evaluate (Node i ''<='' (Var v) (Num c)) h = Inr (cons, h2) \<and>
           isRange cons \<and> varCoefs cons = [] \<and>
           upper (vars h2 v) = replicate (dim (vars h v)) c \<and>
           lower (vars h2 v) = lower (vars h v)"
  using assms
  by (simp add: bare_var_def eval_defs then_do_def Let_def new_arr_def new_node_def)

lemma addConstraint_range:
  assumes "evaluate e h = Inr (cons, h2)" "isRange cons"
  shows "addConstraint m e h = then_do (makeMatrices m h2) (\<lambda>(res, m2). Inr (m2, h2))"
    and "addConstraint m e h = Inr (m', h') \<Longrightarrow> constraints m' = constraints m \<and> h' = h2"
  using assms
  by (auto simp: addConstraint_def then_do_def split: sum.splits dest: makeMatrices_constraints)

text \<open>
  Claim C10.  For a variable as \<^verbatim>\<open>addVariable\<close> made it and a number \<^verbatim>\<open>c\<close>, evaluating
  \<^verbatim>\<open>v >= c\<close> returns a constraint that is still a range and has no coefficient, and every
  entry of the variable's \<^verbatim>\<open>lower\<close> is \<^verbatim>\<open>c\<close> afterwards; \<^verbatim>\<open>addConstraint\<close> goes on to
  \<^verbatim>\<open>makeMatrices\<close> with the model as it was, so whenever it returns the list of constraints
  is unchanged.  The same holds for \<^verbatim>\<open>v <= c\<close> and \<^verbatim>\<open>upper\<close>.
\<close>

theorem bare_variable_bound:
  assumes bare: "bare_var h v"
  shows "(\<exists>cons h2. evaluate (Node i ''>='' (Var v) (Num c)) h = Inr (cons, h2) \<and>
            isRange cons \<and> varCoefs cons = [] \<and>
            lower (vars h2 v) = replicate (dim (vars h v)) c \<and>
            (\<forall>m. addConstraint m (Node i ''>='' (Var v) (Num c)) h =
                   then_do (makeMatrices m h2) (\<lambda>(res, m2). Inr (m2, h2))) \<and>
            (\<forall>m m' h'. addConstraint m (Node i ''>='' (Var v) (Num c)) h = Inr (m', h') \<longrightarrow>
                   constraints m' = constraints m \<and> h' = h2)) \<and>
         (\<exists>cons h2. evaluate (Node i ''<='' (Var v) (Num c)) h = Inr (cons, h2) \<and>
            isRange cons \<and> varCoefs cons = [] \<and>
            upper (vars h2 v) = replicate (dim (vars h v)) c \<and>
            (\<forall>m. addConstraint m (Node i ''<='' (Var v) (Num c)) h =
                   then_do (makeMatrices m h2) (\<lambda>(res, m2). Inr (m2, h2))) \<and>
            (\<forall>m m' h'. addConstraint m (Node i ''<='' (Var v) (Num c)) h = Inr (m', h') \<longrightarrow>
                   constraints m' = constraints m \<and> h' = h2))"
proof -
  from evaluate_ge[OF bare, of i c] obtain cons h2 where
    e: "evaluate (Node i ''>='' (Var v) (Num c)) h = Inr (cons, h2)" and r: "isRange cons"
    and k: "varCoefs cons = []" and l: "lower (vars h2 v) = replicate (dim (vars h v)) c"
    by blast
  from evaluate_le[OF bare, of i c] obtain cons' h2' where
    e': "evaluate (Node i ''<='' (Var v) (Num c)) h = Inr (cons', h2')" and r': "isRange cons'"
    and k': "varCoefs cons' = []" and l': "upper (vars h2' v) = replicate (dim (vars h v)) c"
    by blast
  show ?thesis
    using e r k l e' r' k' l' addConstraint_range[OF e r] addConstraint_range[OF e' r']
    by blast
qed

theorem bare_variable_bound_witness:
  "bare_var (snd (snd (addVariable ''y'' 2 False CyLPModel_init store_init))) 0 \<and>
   (\<exists>cons h2. evaluate (Node 1 ''>='' (Var 0) (Num 0))
        (snd (snd (addVariable ''y'' 2 False CyLPModel_init store_init))) = Inr (cons, h2) \<and>
      isRange cons \<and> lower (vars h2 0) = [0, 0]) \<and>
   (\<exists>m' h'. addConstraint (fst (snd (addVariable ''y'' 2 False CyLPModel_init store_init)))
        (Node 1 ''>='' (Var 0) (Num 0))
        (snd (snd (addVariable ''y'' 2 False CyLPModel_init store_init))) = Inr (m', h') \<and>
      constraints m' = [] \<and> lower (vars h' 0) = [0, 0])"
proof -
  let ?h = "snd (snd (addVariable ''y'' 2 False CyLPModel_init store_init))"
  let ?m = "fst (snd (addVariable ''y'' 2 False CyLPModel_init store_init))"
  have b: "bare_var ?h 0"
    by (simp add: bare_var_def build_defs)
  have d: "dim (vars ?h 0) = 2"
    by (simp add: build_defs)
  have mm: "\<exists>res m2. makeMatrices ?m h2 = Inr (res, m2)" for h2
    by (simp add: build_defs model_defs)
  from bare_variable_bound [OF b, of 1 0] obtain cons h2 where
    e: "evaluate (Node 1 ''>='' (Var 0) (Num 0)) ?h = Inr (cons, h2)" and r: "isRange cons"
    and l: "lower (vars h2 0) = replicate (dim (vars ?h 0)) 0"
    and a: "\<And>m. addConstraint m (Node 1 ''>='' (Var 0) (Num 0)) ?h =
              then_do (makeMatrices m h2) (\<lambda>(res, m2). Inr (m2, h2))"
    and k: "\<And>m m' h'. addConstraint m (Node 1 ''>='' (Var 0) (Num 0)) ?h = Inr (m', h') \<Longrightarrow>
              constraints m' = constraints m \<and> h' = h2"
    by blast
  have l2: "lower (vars h2 0) = [0, 0]"
    using l d by (simp add: numeral_2_eq_2)
  from mm[of h2] obtain res m2 where m2: "makeMatrices ?m h2 = Inr (res, m2)" by blast
  have ac: "addConstraint ?m (Node 1 ''>='' (Var 0) (Num 0)) ?h = Inr (m2, h2)"
    using a[of ?m] m2 by (simp add: then_do_def)
  have "constraints m2 = []"
    using k[OF ac] by (simp add: build_defs)
  with b e r l2 ac show ?thesis by blast
qed

subsection \<open>Evaluation leaves state behind\<close>

lemmas build_defs2 = build_defs CyLPExpr_rmul_def CyLPExpr_rsub_def CyLPExpr_radd_def CyLPExpr_neg_def

lemmas perform_defs = eval_defs perform_mul_def perform_addsub_def set_ones_def negate_key_def
  negate_coef_def dict_set_def row_conflict_def set_lower_def set_upper_def py_len_def isNode_def

lemmas matrix_defs = model_defs generateVarMatrix_def constraint_block_def np_iadd_at_def
  sparseConcat_v_def sparseConcat_h_def pad_row_def np_concatenate_def hasVar_def addVar_def
  IndexFactory_init_def

text \<open>
  \<^verbatim>\<open>evaluate\<close> ends with the loop that resets \<^verbatim>\<open>expr\<close>, so every variable that has a
  coefficient in the outcome has its \<^verbatim>\<open>expr\<close> back on itself.
\<close>

lemma reset_exprs_expr:
  "expr (vars (reset_exprs vs h) v) = (if v \<in> set vs then Var v else expr (vars h v))"
  by (induction vs arbitrary: h) auto

lemma evaluate_ends_with_reset:
  assumes "evaluate e h = Inr (c, h2)"
  shows "\<exists>h'. h2 = reset_exprs (map fst (varCoefs c)) h'"
  using assms
  by (auto simp: evaluate_def then_do_def Let_def split: sum.splits prod.splits)

lemma evaluate_resets_keys:
  assumes "evaluate e h = Inr (c, h2)" and "v \<in> fst ` set (varCoefs c)"
  shows "expr (vars h2 v) = Var v"
proof -
  from evaluate_ends_with_reset[OF assms(1)] obtain h'
    where "h2 = reset_exprs (map fst (varCoefs c)) h'" by blast
  then show ?thesis using assms(2) by (simp add: reset_exprs_expr)
qed

text \<open>
  Claim C8, at the input \<^verbatim>\<open>y >= 0\<close> on a new variable \<^verbatim>\<open>y\<close>.  The claim asks that the
  variable's \<^verbatim>\<open>expr\<close> is the variable itself after \<^verbatim>\<open>evaluate\<close>.  The loop that resets
  \<^verbatim>\<open>expr\<close> runs over the keys of \<^verbatim>\<open>varCoefs\<close>, and a range constraint records no coefficient:
  after \<^verbatim>\<open>evaluate\<close> has returned, \<^verbatim>\<open>y.expr\<close> is still the node of \<^verbatim>\<open>y >= 0\<close>, and a later
  \<^verbatim>\<open>y <= 5\<close> is built on top of that node.
\<close>

theorem range_variable_not_reset:
  "\<exists>y e h c h2.
     stale_scenario = (y, e, h) \<and> e = Node 1 ''>='' (Var y) (Num 0) \<and>
     evaluate e h = Inr (c, h2) \<and>
     expr (vars h2 y) = e \<and> expr (vars h2 y) \<noteq> Var y \<and>
     fst (CyLPExpr_le (Var y) (Num 5) h2) = Node 4 ''<='' e (Num 5)"
  by (simp add: stale_scenario_def build_defs eval_defs)

text \<open>
  Claim C3, at the input \<^verbatim>\<open>x - A * y <= 5\<close> with \<^verbatim>\<open>A = CyLPArray([1, 2])\<close>.  The claim asks
  that two evaluations give the same coefficients.  The coefficient recorded for \<^verbatim>\<open>y\<close> is
  the array \<^verbatim>\<open>A\<close> itself, and \<^verbatim>\<open>-\<close> negates it in place: the first evaluation leaves
  \<open>[-1, -2]\<close> for \<^verbatim>\<open>y\<close>, the second one, started with both variables as new, leaves
  \<open>[1, 2]\<close>.  \<^verbatim>\<open>addConstraint\<close> evaluates twice and stores the second outcome, so the
  constraint it stores has the coefficient \<open>[1, 2]\<close> for \<^verbatim>\<open>y\<close>.
\<close>

theorem sign_flip:
  "\<exists>x y A m e h c1 h1 c2 h2 m' h' c.
     sign_scenario = (x, y, A, m, e, h) \<and>
     evaluate e h = Inr (c1, h1) \<and>
     map_of (varCoefs c1) y = Some A \<and> arrs h1 A = Vec [- 1, - 2] \<and>
     vars h1 x = CyLPVar_init x ''x'' 1 False None None \<and>
     vars h1 y = CyLPVar_init y ''y'' 2 False None None \<and>
     evaluate e h1 = Inr (c2, h2) \<and>
     map_of (varCoefs c2) y = Some A \<and> arrs h2 A = Vec [1, 2] \<and>
     addConstraint m e h = Inr (m', h') \<and> constraints m' = [c] \<and>
     map_of (varCoefs c) y = Some A \<and> arrs h' A = Vec [1, 2]"
  by (simp add: sign_scenario_def build_defs2 perform_defs matrix_defs)

subsection \<open>Coefficients of a product\<close>

text \<open>
  What \<^verbatim>\<open>perform\<close> does for \<^verbatim>\<open>*\<close> with an array on the left and a variable on the right.
  For a two-dimensional coefficient the three outcomes are the dimension error, the
  row-count error, and the recorded coefficient with the row count set to the number of
  rows.  For a one-dimensional coefficient of the wrong length the error message itself
  reads \<^verbatim>\<open>left.shape[1]\<close>, which raises \<^verbatim>\<open>IndexError\<close>.
\<close>

lemma perform_mul_array:
  "perform ''*'' (Arr a) (Var r) c h =
     (case arrs h a of
        Vec xs \<Rightarrow>
          (if dim (vars h r) \<noteq> length xs then Inl IndexError
           else if row_conflict (nRows c) 1 then Inl RowCountError
           else Inr ((add_name (vars h r) c)
                       \<lparr>nRows := Some 1, varCoefs := dict_set (varCoefs (add_name (vars h r) c)) r a,
                         isRange := False\<rparr>, h))
      | Mat n rows \<Rightarrow>
          (if dim (vars h r) \<noteq> n then Inl DimensionError
           else if row_conflict (nRows c) (length rows) then Inl RowCountError
           else Inr ((add_name (vars h r) c)
                       \<lparr>nRows := Some (length rows),
                         varCoefs := dict_set (varCoefs (add_name (vars h r) c)) r a,
                         isRange := False\<rparr>, h)))"
  by (simp add: perform_def perform_right_var_def perform_mul_def then_do_def Let_def is_cmp_def
      add_name_def split: ndarray.splits)

text \<open>
  Claim C5, at the input \<^verbatim>\<open>CyLPArray([1, 2]) * x\<close> with \<^verbatim>\<open>x\<close> of dimension 3.  The claim asks
  for the dimension error; \<^verbatim>\<open>perform\<close> raises \<^verbatim>\<open>IndexError\<close>.
\<close>

theorem vector_dimension_error:
  "\<exists>x a h. vector_scenario = (x, a, h) \<and> dim (vars h x) = 3 \<and> arrs h a = Vec [1, 2] \<and>
     perform ''*'' (Arr a) (Var x) CyLPConstraint_init h = Inl IndexError \<and>
     perform ''*'' (Arr a) (Var x) CyLPConstraint_init h \<noteq> Inl DimensionError"
  by (simp add: vector_scenario_def build_defs perform_mul_array)

subsection \<open>Assembly of the matrix\<close>

text \<open>
  The names \<^verbatim>\<open>makeIndexFactory\<close> collects are the names some constraint refers to, as far
  as a variable of the model has them.
\<close>

lemma add_names_set: "set (add_names vns cnames names) = set names \<union> (set cnames \<inter> set vns)"
  by (induction vns arbitrary: names) auto

lemma index_loop_set:
  "index_loop cs vns (names, dims, n) = Inr (names', dims', n') \<Longrightarrow>
   set names' = set names \<union> ((\<Union>c \<in> set cs. set (varNames c)) \<inter> set vns)"
proof (induction cs arbitrary: names dims n)
  case Nil
  then show ?case by simp
next
  case (Cons c cs)
  from Cons.prems obtain k where k: "nRows c = Some k"
    by (cases "nRows c") auto
  with Cons.prems have
    "index_loop cs vns (add_names vns (varNames c) names, dims ++ parentVarDims c, n + k) =
       Inr (names', dims', n')"
    by simp
  from Cons.IH[OF this] show ?case
    by (auto simp: add_names_set)
qed

lemma makeIndexFactory_names:
  assumes "makeIndexFactory m h = Inr m'"
  shows "set (allVarNames m') =
         (\<Union>c \<in> set (constraints m). set (varNames c)) \<inter> (\<lambda>v. name (vars h v)) ` set (variables m)"
proof -
  from assms obtain names dims n f where
    l: "index_loop (constraints m) (map (\<lambda>v. name (vars h v)) (variables m)) ([], Map.empty, 0) =
          Inr (names, dims, n)"
    and m': "m' = m\<lparr>allVarNames := names, allParentVarDims := dims, mRows := n, inds := f\<rparr>"
    by (auto simp: makeIndexFactory_def then_do_def split: sum.splits)
  from index_loop_set[OF l] m' show ?thesis by simp
qed

text \<open>
  Claim C7, at the input \<^verbatim>\<open>addConstraint(2 * y <= 1); addConstraint(2 * x <= 1)\<close> with \<^verbatim>\<open>x\<close>
  created before \<^verbatim>\<open>y\<close>.  The claim asks that \<^verbatim>\<open>x\<close> comes before \<^verbatim>\<open>y\<close> in \<^verbatim>\<open>allVarNames\<close>.
  The loop over the model's variables is inside the loop over the constraints, so the
  first constraint contributes \<^verbatim>\<open>y\<close> before the second contributes \<^verbatim>\<open>x\<close>.
\<close>

theorem creation_order_broken:
  "\<exists>x y m h m'.
     order_scenario = Inr (x, y, m, h) \<and>
     map (\<lambda>v. name (vars h v)) (variables m) = [''x'', ''y''] \<and>
     map varNames (constraints m) = [[''y''], [''x'']] \<and>
     makeIndexFactory m h = Inr m' \<and> allVarNames m' = [''y'', ''x'']"
  by (simp add: order_scenario_def build_defs2 perform_defs matrix_defs)

text \<open>
  Claim C1, at the input \<^verbatim>\<open>A * x[1:3] <= b\<close> with the matrix \<^verbatim>\<open>A = [[1, 2], [3, 4]]\<close> and
  \<^verbatim>\<open>x\<close> of dimension 3.  The claim asks for \<open>[[0, 1, 2], [0, 3, 4]]\<close>: the coefficient at
  the columns 1 and 2 of the block.  For a constraint of more than one row
  \<^verbatim>\<open>generateVarMatrix\<close> takes the coefficient as it is and never reads \<^verbatim>\<open>var.indices\<close>, so the
  result has two columns.  With the vector \<^verbatim>\<open>[1, 2]\<close> in place of the matrix, the branch for
  one row does place the coefficient: \<open>[[0, 1, 2]]\<close>.
\<close>

theorem matrix_on_slice_misplaced:
  "\<exists>m h m' h'.
     matrix_slice_scenario = Inr (m, h) \<and>
     allParentVarDims m ''x'' = Some 3 \<and>
     generateVarMatrix m ''x'' h = Inr (Some (Mat 2 [[1, 2], [3, 4]])) \<and>
     generateVarMatrix m ''x'' h \<noteq> Inr (Some (Mat 3 [[0, 1, 2], [0, 3, 4]])) \<and>
     vector_slice_scenario = Inr (m', h') \<and>
     generateVarMatrix m' ''x'' h' = Inr (Some (Mat 3 [[0, 1, 2]]))"
  apply (simp add: matrix_slice_scenario_def vector_slice_scenario_def build_defs2 perform_defs
      matrix_defs upto_rec1)
  apply (simp add: numeral_3_eq_3 numeral_2_eq_2)
  done

subsection \<open>CyLPArray yields to expressions\<close>

lemmas CyLPArray_defs = CyLPArray_le_def CyLPArray_ge_def CyLPArray_mul_def CyLPArray_rmul_def
  CyLPArray_add_def CyLPArray_radd_def CyLPArray_rsub_def CyLPArray_sub_def

lemma CyLPArray_defers:
  "m \<noteq> M_eq \<Longrightarrow> CyLPArray_call m other = (if isExpr other then NotImplemented else NdarrayResult m)"
  by (cases m) (simp_all add: CyLPArray_defs)

lemma array_op_builds:
  assumes "bop \<noteq> Eq" "isExpr e"
  shows "\<exists>i opr l r h1. array_op bop (Arr a) e h = Built (Node i opr l r) h1"
  using assms
  by (cases bop)
     (auto simp: array_op_def CyLPArray_defs CyLPExpr_ge_def CyLPExpr_le_def CyLPExpr_radd_def
        CyLPExpr_rsub_def CyLPExpr_rmul_def new_node_def Let_def)

text \<open>
  Claim C9, at the input \<^verbatim>\<open>a == x\<close> for a \<^verbatim>\<open>CyLPArray\<close> \<^verbatim>\<open>a\<close> and a variable \<^verbatim>\<open>x\<close>.  The claim
  asks that \<^verbatim>\<open>a\<close> yields, as it does for \<^verbatim>\<open><=\<close>.  The class has no \<^verbatim>\<open>__eq__\<close> of its own: the
  method called is the one of \<^verbatim>\<open>np.ndarray\<close>, which returns a numeric result, and no
  expression node is built.
\<close>

theorem array_eq_not_deferred:
  "isExpr (Var x) \<and> CyLPArray_call M_eq (Var x) = NdarrayResult M_eq \<and>
   CyLPArray_call M_eq (Var x) \<noteq> NotImplemented \<and>
   array_op Eq (Arr a) (Var x) h = Numeric M_eq \<and>
   CyLPArray_call M_le (Var x) = NotImplemented"
  by (simp add: array_op_def isExpr_def CyLPArray_defs)

end
